theory Spec2Isabelle
  imports Main
begin

section \<open>JavaScript values\<close>

text \<open>
  The values that flow through \<^verbatim>\<open>index.js\<close>: what xml2js returns (strings, objects,
  arrays, null), what the options object and the session hold, and \<^verbatim>\<open>undefined\<close>.
  Numbers are left out of the value type: no value inspected by the code is numeric
  (the status codes and the TTL are literals of the code, modelled as \<open>nat\<close>).
  An object is an association list; the first binding of a name is the property.
\<close>

datatype jsval =
    JUndef
  | JNull
  | JBool bool
  | JStr string
  | JArr "jsval list"
  | JObj "(string \<times> jsval) list"

datatype js_error =
    TypeError string
  | ReferenceError string
  | Error string

text \<open>ToBoolean.\<close>

fun js_truthy :: "jsval \<Rightarrow> bool" where
  "js_truthy JUndef = False"
| "js_truthy JNull = False"
| "js_truthy (JBool b) = b"
| "js_truthy (JStr s) = (s \<noteq> [])"
| "js_truthy (JArr xs) = True"
| "js_truthy (JObj fs) = True"

text \<open>\<^verbatim>\<open>a || b\<close>\<close>

definition js_or :: "jsval \<Rightarrow> jsval \<Rightarrow> jsval" where
  "js_or a b = (if js_truthy a then a else b)"

fun join_comma :: "string list \<Rightarrow> string" where
  "join_comma [] = []"
| "join_comma [s] = s"
| "join_comma (s # t # ss) = s @ '','' @ join_comma (t # ss)"

text \<open>
  ToString, as string concatenation and property-key coercion apply it: an array joins
  its elements with commas (null and undefined elements as the empty string), a plain
  object is \<^verbatim>\<open>[object Object]\<close>.
\<close>

fun js_to_string :: "jsval \<Rightarrow> string" where
  "js_to_string JUndef = ''undefined''"
| "js_to_string JNull = ''null''"
| "js_to_string (JBool b) = (if b then ''true'' else ''false'')"
| "js_to_string (JStr s) = s"
| "js_to_string (JArr xs) =
     join_comma (map (\<lambda>x. if x = JUndef \<or> x = JNull then [] else js_to_string x) xs)"
| "js_to_string (JObj fs) = ''[object Object]''"

text \<open>
  Property read \<^verbatim>\<open>v.p\<close> for the property names the code uses (none of them is defined on
  a prototype): reading from undefined or null throws a TypeError, an object yields its
  own property or undefined, every other value yields undefined.
\<close>

fun js_get :: "jsval \<Rightarrow> string \<Rightarrow> js_error + jsval" where
  "js_get JUndef p = Inl (TypeError p)"
| "js_get JNull p = Inl (TypeError p)"
| "js_get (JObj fs) p = Inr (case map_of fs p of None \<Rightarrow> JUndef | Some v \<Rightarrow> v)"
| "js_get v p = Inr JUndef"

text \<open>A chain of property reads \<^verbatim>\<open>v.p1.p2...\<close>, stopping at the first throw.\<close>

fun js_path :: "jsval \<Rightarrow> string list \<Rightarrow> js_error + jsval" where
  "js_path v [] = Inr v"
| "js_path v (p # ps) = (case js_get v p of Inl e \<Rightarrow> Inl e | Inr w \<Rightarrow> js_path w ps)"

text \<open>\<^verbatim>\<open>String.prototype.split\<close> with a one-character separator.\<close>

fun split_on :: "char \<Rightarrow> string \<Rightarrow> string list" where
  "split_on c [] = [[]]"
| "split_on c (x # xs) =
     (if x = c then [] # split_on c xs
      else (case split_on c xs of [] \<Rightarrow> [[x]] | w # ws \<Rightarrow> (x # w) # ws))"

text \<open>\<^verbatim>\<open>v.split(sep)\<close>: only a string has the method, on anything else the call throws.\<close>

fun js_split :: "jsval \<Rightarrow> char \<Rightarrow> js_error + string list" where
  "js_split (JStr s) c = Inr (split_on c s)"
| "js_split v c = Inl (TypeError ''split'')"

text \<open>Indexing an array of strings: out of range is undefined.\<close>

definition js_index :: "string list \<Rightarrow> nat \<Rightarrow> jsval" where
  "js_index xs i = (if i < length xs then JStr (xs ! i) else JUndef)"

section \<open>External collaborators\<close>

text \<open>
  Node's \<^verbatim>\<open>url\<close> module, xml2js and the HTTP client are libraries, not code of this
  repository: they are parameters of the model. \<open>parseXML\<close> is xml2js's
  \<^verbatim>\<open>parseString\<close> with the options the code always passes; it is taken to call its
  callback once, with an error or with a result.
\<close>

record parsed_url =
  protocol :: string
  hostname :: string
  port :: string
  pathname :: string
  path :: string

datatype port = PortStr string | PortNum nat

record request_options =
  host :: string
  port_opt :: port
  method_opt :: string
  path_opt :: string
  headers :: "(string \<times> string) list"

record env =
  url_parse :: "string \<Rightarrow> parsed_url"
  url_format :: "string \<Rightarrow> (string \<times> jsval) list \<Rightarrow> string"
  parseXML :: "jsval \<Rightarrow> js_error + jsval"
  http_request :: "request_options \<Rightarrow> js_error + string"

section \<open>Protocol versions and response parsing\<close>

datatype version = V1 | V2 | V3 | SAML1_1

text \<open>What \<^verbatim>\<open>_validate\<close> passes to its callback: an Error, or a user and attributes.\<close>

datatype outcome = Failure string | Success jsval jsval

fun validateUri :: "version \<Rightarrow> string" where
  "validateUri V1 = ''/validate''"
| "validateUri V2 = ''/serviceValidate''"
| "validateUri V3 = ''/p3/serviceValidate''"
| "validateUri SAML1_1 = ''/samlValidate''"

definition validate_v1 :: "string \<Rightarrow> js_error + outcome" where
  "validate_v1 body =
     (let lines = split_on (CHR 0x0A) body in
      if js_index lines 0 = JStr ''yes'' \<and> length lines \<ge> 2
        then Inr (Success (js_index lines 1) JUndef)
      else if js_index lines 0 = JStr ''no''
        then Inr (Failure ''CAS authentication failed.'')
      else Inr (Failure ''Response from CAS server was bad.''))"

text \<open>The body of the \<^verbatim>\<open>try\<close> of the 2.0/3.0 parser.\<close>

definition v2_try :: "jsval \<Rightarrow> js_error + outcome" where
  "v2_try result =
     (case js_path result [''serviceresponse'', ''authenticationfailure''] of
        Inl e \<Rightarrow> Inl e
      | Inr failure \<Rightarrow>
          if js_truthy failure then
            (case js_path failure [''$'', ''code''] of
               Inl e \<Rightarrow> Inl e
             | Inr code \<Rightarrow>
                 Inr (Failure (''CAS authentication failed ('' @ js_to_string code @ '').'')))
          else
            (case js_path result [''serviceresponse'', ''authenticationsuccess''] of
               Inl e \<Rightarrow> Inl e
             | Inr success \<Rightarrow>
                 if js_truthy success then
                   (case js_get success ''user'' of
                      Inl e \<Rightarrow> Inl e
                    | Inr user \<Rightarrow>
                        (case js_get success ''attributes'' of
                           Inl e \<Rightarrow> Inl e
                         | Inr attributes \<Rightarrow> Inr (Success user attributes)))
                 else Inr (Failure ''CAS authentication failed.'')))"

definition validate_v2 :: "env \<Rightarrow> string \<Rightarrow> js_error + outcome" where
  "validate_v2 E body =
     (case parseXML E (JStr body) of
        Inl err \<Rightarrow> Inr (Failure ''Response from CAS server was bad.'')
      | Inr result \<Rightarrow>
          (case v2_try result of
             Inl err \<Rightarrow> Inr (Failure ''CAS authentication failed.'')
           | Inr out \<Rightarrow> Inr out))"

text \<open>
  One round of the \<^verbatim>\<open>forEach\<close> over the SAML attribute elements: the value of an
  attribute is the list of the \<^verbatim>\<open>_\<close> of its value elements, or the \<^verbatim>\<open>_\<close> of its one value
  element; it is stored under the attribute's name (a later one replaces an earlier).
\<close>

fun saml_values :: "jsval list \<Rightarrow> js_error + jsval list" where
  "saml_values [] = Inr []"
| "saml_values (v # vs) =
     (case js_get v ''_'' of
        Inl e \<Rightarrow> Inl e
      | Inr x \<Rightarrow> (case saml_values vs of Inl e \<Rightarrow> Inl e | Inr xs \<Rightarrow> Inr (x # xs)))"

definition saml_attr_value :: "jsval \<Rightarrow> js_error + jsval" where
  "saml_attr_value attr =
     (case js_get attr ''attributevalue'' of
        Inl e \<Rightarrow> Inl e
      | Inr (JArr vs) \<Rightarrow> (case saml_values vs of Inl e \<Rightarrow> Inl e | Inr xs \<Rightarrow> Inr (JArr xs))
      | Inr av \<Rightarrow> js_get av ''_'')"

fun obj_put :: "string \<Rightarrow> jsval \<Rightarrow> (string \<times> jsval) list \<Rightarrow> (string \<times> jsval) list" where
  "obj_put k v [] = [(k, v)]"
| "obj_put k v ((k', v') # fs) =
     (if k = k' then (k, v) # fs else (k', v') # obj_put k v fs)"

text \<open>
  \<^verbatim>\<open>attributes[name] = v\<close> on the plain object \<^verbatim>\<open>attributes\<close>. The name \<^verbatim>\<open>__proto__\<close> is the
  accessor of the prototype: assigning to it adds no property of the object's own (the
  prototype itself is outside the value type).
\<close>

definition obj_assign ::
  "string \<Rightarrow> jsval \<Rightarrow> (string \<times> jsval) list \<Rightarrow> (string \<times> jsval) list" where
  "obj_assign k v fs = (if k = ''__proto__'' then fs else obj_put k v fs)"

fun saml_attributes ::
  "jsval list \<Rightarrow> (string \<times> jsval) list \<Rightarrow> js_error + (string \<times> jsval) list" where
  "saml_attributes [] attributes = Inr attributes"
| "saml_attributes (attr # rest) attributes =
     (case saml_attr_value attr of
        Inl e \<Rightarrow> Inl e
      | Inr thisAttrValue \<Rightarrow>
          (case js_path attr [''$'', ''AttributeName''] of
             Inl e \<Rightarrow> Inl e
           | Inr name \<Rightarrow>
               saml_attributes rest (obj_assign (js_to_string name) thisAttrValue attributes)))"

text \<open>The status code as the code extracts it: element 1 of the split at colons.\<close>

definition saml_status :: "jsval \<Rightarrow> js_error + jsval" where
  "saml_status v =
     (case js_split v (CHR '':'') of Inl e \<Rightarrow> Inl e | Inr parts \<Rightarrow> Inr (js_index parts 1))"

text \<open>The body of the \<^verbatim>\<open>try\<close> of the SAML 1.1 parser.\<close>

definition saml_try :: "jsval \<Rightarrow> js_error + outcome" where
  "saml_try result =
     (case js_path result [''envelope'', ''body'', ''response''] of
        Inl e \<Rightarrow> Inl e
      | Inr samlResponse \<Rightarrow>
     (case js_path samlResponse [''status'', ''statuscode'', ''$'', ''Value''] of
        Inl e \<Rightarrow> Inl e
      | Inr v \<Rightarrow>
     (case saml_status v of
        Inl e \<Rightarrow> Inl e
      | Inr success \<Rightarrow>
          if success \<noteq> JStr ''Success'' then
            Inr (Failure (''CAS authentication failed ('' @ js_to_string success @ '').''))
          else
     (case js_path samlResponse [''assertion'', ''attributestatement'', ''attribute''] of
        Inl e \<Rightarrow> Inl e
      | Inr attributesArray \<Rightarrow>
     (case saml_attributes
             (case attributesArray of JArr xs \<Rightarrow> xs | x \<Rightarrow> [x]) [] of
        Inl e \<Rightarrow> Inl e
      | Inr attributes \<Rightarrow>
     (case js_path samlResponse
             [''assertion'', ''authenticationstatement'', ''subject'', ''nameidentifier''] of
        Inl e \<Rightarrow> Inl e
      | Inr user \<Rightarrow> Inr (Success user (JObj attributes))))))))"

definition validate_saml :: "env \<Rightarrow> string \<Rightarrow> js_error + outcome" where
  "validate_saml E body =
     (case parseXML E (JStr body) of
        Inl err \<Rightarrow> Inr (Failure ''Response from CAS server was bad.'')
      | Inr result \<Rightarrow>
          (case saml_try result of
             Inl err \<Rightarrow> Inr (Failure ''CAS authentication failed.'')
           | Inr out \<Rightarrow> Inr out))"

text \<open>
  \<^verbatim>\<open>_validate\<close>, as the constructor sets it for each version. The result is what reaches
  the caller: \<open>Inr\<close> the arguments of the one callback call, \<open>Inl\<close> an error thrown out of
  the parser.
\<close>

fun validate :: "version \<Rightarrow> env \<Rightarrow> string \<Rightarrow> js_error + outcome" where
  "validate V1 E body = validate_v1 body"
| "validate V2 E body = validate_v2 E body"
| "validate V3 E body = validate_v2 E body"
| "validate SAML1_1 E body = validate_saml E body"

section \<open>The instance and its constructor\<close>

record options =
  opt_cas_url :: jsval
  opt_service_url :: jsval
  opt_cas_version :: jsval
  opt_renew :: jsval
  opt_is_dev_mode :: jsval
  opt_dev_mode_user :: jsval
  opt_dev_mode_info :: jsval
  opt_session_name :: jsval
  opt_session_info :: jsval
  opt_destroy_session :: jsval
  opt_logout_redirect_url :: jsval
  opt_single_logout :: jsval

text \<open>
  The fields of \<^verbatim>\<open>this\<close>. The module-level \<^verbatim>\<open>_validateUri\<close> and \<^verbatim>\<open>_validate\<close> are set by
  the constructor from the version; with one instance per process, as modelled here,
  they are \<open>validateUri\<close> and \<open>validate\<close> at \<open>cas_version\<close>.
\<close>

record cas =
  cas_version :: version
  cas_url :: string
  cas_host :: string
  cas_port :: port
  cas_path :: string
  service_url :: jsval
  renew :: bool
  is_dev_mode :: bool
  dev_mode_user :: jsval
  dev_mode_info :: jsval
  session_name :: jsval
  session_info :: jsval
  destroy_session :: bool
  logout_redirect_url :: jsval
  single_logout :: bool

definition parse_version :: "jsval \<Rightarrow> version option" where
  "parse_version v =
     (if v = JStr ''1.0'' then Some V1
      else if v = JStr ''2.0'' then Some V2
      else if v = JStr ''3.0'' then Some V3
      else if v = JStr ''saml1.1'' then Some SAML1_1
      else None)"

text \<open>\<^verbatim>\<open>o !== undefined ? o : d\<close>\<close>

definition defined_or :: "jsval \<Rightarrow> jsval \<Rightarrow> jsval" where
  "defined_or v d = (if v \<noteq> JUndef then v else d)"

text \<open>\<^verbatim>\<open>o !== undefined ? !!o : false\<close>\<close>

definition flag :: "jsval \<Rightarrow> bool" where
  "flag v = (if v \<noteq> JUndef then js_truthy v else False)"

text \<open>
  \<^verbatim>\<open>new Cas(options)\<close> for an options object; \<open>Inl\<close> is the error thrown. Node's
  \<^verbatim>\<open>url.parse\<close> throws a TypeError for a \<^verbatim>\<open>cas_url\<close> that is not a string.
\<close>

definition Cas :: "env \<Rightarrow> options \<Rightarrow> js_error + cas" where
  "Cas E opts =
     (if opt_cas_url opts = JUndef
        then Inl (Error ''CAS Authentication requires a cas_url parameter.'')
      else if opt_service_url opts = JUndef
        then Inl (Error ''CAS Authentication requires a service_url parameter.'')
      else
        (let v = defined_or (opt_cas_version opts) (JStr ''3.0'') in
         case parse_version v of
           None \<Rightarrow>
             Inl (Error (''The supplied CAS version ('' @ [CHR 0x22] @ js_to_string v
                          @ [CHR 0x22] @ '') is not supported.''))
         | Some ver \<Rightarrow>
             (case opt_cas_url opts of
                JStr u \<Rightarrow>
                  (let parsed_cas_url = url_parse E u in
                   Inr \<lparr> cas_version = ver,
                         cas_url = u,
                         cas_host = hostname parsed_cas_url,
                         cas_port =
                           (if port parsed_cas_url \<noteq> [] then PortStr (port parsed_cas_url)
                            else if protocol parsed_cas_url = ''http:'' then PortNum 80
                            else PortNum 443),
                         cas_path = pathname parsed_cas_url,
                         service_url = opt_service_url opts,
                         renew = flag (opt_renew opts),
                         is_dev_mode = flag (opt_is_dev_mode opts),
                         dev_mode_user = defined_or (opt_dev_mode_user opts) (JStr []),
                         dev_mode_info = defined_or (opt_dev_mode_info opts) (JObj []),
                         session_name = defined_or (opt_session_name opts) (JStr ''cas_user''),
                         session_info =
                           (if ver \<in> {V2, V3, SAML1_1} \<and> opt_session_info opts \<noteq> JUndef
                            then opt_session_info opts else JBool False),
                         destroy_session = flag (opt_destroy_session opts),
                         logout_redirect_url = opt_logout_redirect_url opts,
                         single_logout = flag (opt_single_logout opts) \<rparr>)
              | other \<Rightarrow> Inl (TypeError ''url''))))"

section \<open>The request context and the session store\<close>

text \<open>
  The external session store of koa-session, as section 6 of the specification gives its
  contract: \<^verbatim>\<open>get\<close>, \<^verbatim>\<open>set\<close> and \<^verbatim>\<open>destroy\<close> on keyed entries, each of which may fail.
  An entry is kept with the TTL it was set with; the options argument of the operations
  is left out. \<open>faults\<close> is the fate of the coming
  operations, in order: \<open>True\<close> makes the operation throw and leave the entries as they
  are; past the end of the list every operation succeeds.
\<close>

record store =
  entries :: "jsval \<rightharpoonup> jsval \<times> nat"
  faults :: "bool list"

definition ONE_DAY :: nat where
  "ONE_DAY = 24 * 60 * 60 * 1000"

definition next_fault :: "store \<Rightarrow> bool \<times> store" where
  "next_fault S = (case faults S of [] \<Rightarrow> (False, S) | f # fs \<Rightarrow> (f, S\<lparr>faults := fs\<rparr>))"

definition store_get :: "jsval \<Rightarrow> nat \<Rightarrow> store \<Rightarrow> (js_error + jsval) \<times> store" where
  "store_get k maxAge S =
     (case next_fault S of
        (True, S') \<Rightarrow> (Inl (Error ''store''), S')
      | (False, S') \<Rightarrow>
          (Inr (case entries S' k of None \<Rightarrow> JNull | Some (v, ttl) \<Rightarrow> v), S'))"

definition store_set :: "jsval \<Rightarrow> jsval \<Rightarrow> nat \<Rightarrow> store \<Rightarrow> (js_error + unit) \<times> store" where
  "store_set k v maxAge S =
     (case next_fault S of
        (True, S') \<Rightarrow> (Inl (Error ''store''), S')
      | (False, S') \<Rightarrow> (Inr (), S'\<lparr>entries := (entries S')(k \<mapsto> (v, maxAge))\<rparr>))"

definition store_destroy :: "jsval \<Rightarrow> store \<Rightarrow> (js_error + unit) \<times> store" where
  "store_destroy k S =
     (case next_fault S of
        (True, S') \<Rightarrow> (Inl (Error ''store''), S')
      | (False, S') \<Rightarrow> (Inr (), S'\<lparr>entries := (entries S')(k := None)\<rparr>))"

text \<open>The next \<open>n\<close> operations on the store succeed.\<close>

definition succeeds :: "nat \<Rightarrow> store \<Rightarrow> bool" where
  "succeeds n S = (True \<notin> set (take n (faults S)))"

text \<open>
  What the code reads and writes of a Koa context: the session slots, the session's
  external key and store (\<^verbatim>\<open>ctx.session._sessCtx\<close>, taken to exist), the query, the URL
  and the request body; the status and body it assigns, the redirect it issues, whether
  it called \<^verbatim>\<open>next\<close> (what the middleware behind it does is not modelled); and the
  validation requests it has sent.
\<close>

record state =
  session :: "string \<rightharpoonup> jsval"
  externalKey :: jsval
  store :: store
  query :: "string \<rightharpoonup> jsval"
  url :: string
  request_body :: jsval
  status :: "nat option"
  redirected :: "jsval option"
  ctx_body :: "string option"
  next_called :: bool
  sent :: "request_options list"

text \<open>
  How an \<^verbatim>\<open>async\<close> function ends: its promise is fulfilled, it is rejected with an error,
  or it never settles.
\<close>

datatype completion = Done state | Thrown js_error | Pending

definition session_get :: "state \<Rightarrow> string \<Rightarrow> jsval" where
  "session_get s k = (case session s k of None \<Rightarrow> JUndef | Some v \<Rightarrow> v)"

definition session_set :: "string \<Rightarrow> jsval \<Rightarrow> state \<Rightarrow> state" where
  "session_set k v s = s\<lparr>session := (session s)(k \<mapsto> v)\<rparr>"

definition query_get :: "state \<Rightarrow> string \<Rightarrow> jsval" where
  "query_get s k = (case query s k of None \<Rightarrow> JUndef | Some v \<Rightarrow> v)"

definition redirect :: "jsval \<Rightarrow> state \<Rightarrow> state" where
  "redirect target s = s\<lparr>redirected := Some target\<rparr>"

definition call_next :: "state \<Rightarrow> state" where
  "call_next s = s\<lparr>next_called := True\<rparr>"

section \<open>Single logout\<close>

text \<open>
  \<^verbatim>\<open>try { await sessionStore.destroy(st); resolve() } catch (e) { ...status = 202; resolve() }\<close>,
  which the code has twice.
\<close>

definition destroy_st :: "jsval \<Rightarrow> state \<Rightarrow> state" where
  "destroy_st st s =
     (case store_destroy st (store s) of
        (Inl e, S) \<Rightarrow> s\<lparr>store := S, status := Some 202\<rparr>
      | (Inr u, S) \<Rightarrow> s\<lparr>store := S\<rparr>)"

text \<open>The outer \<^verbatim>\<open>try\<close> of the parse callback, for the session index \<open>st\<close>.\<close>

definition slo_reconcile :: "jsval \<Rightarrow> state \<Rightarrow> state" where
  "slo_reconcile st s =
     (case store_get st ONE_DAY (store s) of
        (Inl e, S) \<Rightarrow> s\<lparr>store := S, status := Some 202\<rparr>
      | (Inr sessionResult, S) \<Rightarrow>
          (let s1 = s\<lparr>store := S\<rparr> in
           if js_truthy sessionResult then
             (case js_get sessionResult ''key'' of
                Inl e \<Rightarrow> s1\<lparr>status := Some 202\<rparr>
              | Inr key \<Rightarrow>
                  if js_truthy key then
                    (case store_destroy key (store s1) of
                       (Inl e, S') \<Rightarrow> s1\<lparr>store := S', status := Some 202\<rparr>
                     | (Inr u, S') \<Rightarrow> destroy_st st (s1\<lparr>store := S'\<rparr>))
                  else destroy_st st s1)
           else destroy_st st s1))"

text \<open>
  \<^verbatim>\<open>handle_single_logout\<close>. The parse callback is an \<^verbatim>\<open>async\<close> function called inside the
  executor of the awaited promise: an error it throws before its \<^verbatim>\<open>try\<close> (on a parse
  error, or reading \<^verbatim>\<open>result.logoutrequest.sessionindex\<close>) rejects the callback's own
  promise (a rejection nobody handles), \<^verbatim>\<open>resolve\<close> is never called, and the handler
  never gets to its last line. Destructuring a request body that is undefined or null
  throws in the handler itself.
\<close>

definition handle_single_logout :: "cas \<Rightarrow> env \<Rightarrow> state \<Rightarrow> completion" where
  "handle_single_logout C E s =
     (if \<not> single_logout C then Done (s\<lparr>ctx_body := Some ''ok''\<rparr>)
      else
        (case js_get (request_body s) ''logoutRequest'' of
           Inl e \<Rightarrow> Thrown e
         | Inr logoutRequest \<Rightarrow>
             (case parseXML E logoutRequest of
                Inl err \<Rightarrow> Pending
              | Inr result \<Rightarrow>
                  (case js_path result [''logoutrequest'', ''sessionindex''] of
                     Inl e \<Rightarrow> Pending
                   | Inr st \<Rightarrow> Done ((slo_reconcile st s)\<lparr>ctx_body := Some ''ok''\<rparr>)))))"

section \<open>The authentication decision\<close>

datatype AUTH_TYPE = BOUNCE | BOUNCE_REDIRECT | BLOCK

text \<open>\<^verbatim>\<open>_login\<close>\<close>

definition login :: "cas \<Rightarrow> env \<Rightarrow> state \<Rightarrow> state" where
  "login C E s =
     (let s1 = session_set ''cas_return_to''
                 (js_or (query_get s ''returnTo'') (JStr (path (url_parse E (url s))))) s;
          q = [(''service'',
                 JStr (js_to_string (service_url C) @ pathname (url_parse E (url s))))]
              @ (if renew C then [(''renew'', JBool True)] else [])
      in redirect (JStr (cas_url C @ url_format E ''/login'' q)) s1)"

text \<open>
  \<^verbatim>\<open>_request\<close>: the response body, or the transport error. For SAML 1.1 it writes
  \<^verbatim>\<open>post_data\<close>, a variable of \<^verbatim>\<open>_handleTicket\<close> that is not in scope here, before
  the request is ended.
\<close>

definition request ::
  "cas \<Rightarrow> env \<Rightarrow> request_options \<Rightarrow> state \<Rightarrow> (js_error + string) \<times> state" where
  "request C E requestOptions s =
     (if cas_version C = SAML1_1 then (Inl (ReferenceError ''post_data''), s)
      else (http_request E requestOptions, s\<lparr>sent := sent s @ [requestOptions]\<rparr>))"

text \<open>The success branch of the callback that \<^verbatim>\<open>_handleTicket\<close> gives to \<^verbatim>\<open>_validate\<close>.\<close>

definition commit_success :: "cas \<Rightarrow> jsval \<Rightarrow> jsval \<Rightarrow> state \<Rightarrow> state" where
  "commit_success C user attributes s =
     (let key = externalKey s in
      case (if single_logout C
            then store_set (query_get s ''ticket'') (JObj [(''key'', key)]) ONE_DAY (store s)
            else (Inr (), store s)) of
        (Inl e, S) \<Rightarrow> s\<lparr>store := S\<rparr>
      | (Inr u, S) \<Rightarrow>
          (let s1 = session_set (js_to_string (session_name C)) user (s\<lparr>store := S\<rparr>);
               s2 = (if js_truthy (session_info C)
                     then session_set (js_to_string (session_info C))
                            (js_or attributes (JObj [])) s1
                     else s1)
           in redirect (session_get s2 ''cas_return_to'') s2))"

text \<open>
  The \<^verbatim>\<open>requestOptions\<close> that \<^verbatim>\<open>_handleTicket\<close> builds for the versions 1.0, 2.0 and 3.0.
\<close>

definition get_request :: "cas \<Rightarrow> env \<Rightarrow> state \<Rightarrow> request_options" where
  "get_request C E s =
     \<lparr> host = cas_host C,
       port_opt = cas_port C,
       method_opt = ''GET'',
       path_opt =
         url_format E (cas_path C @ validateUri (cas_version C))
           [(''service'',
              JStr (js_to_string (service_url C) @ pathname (url_parse E (url s)))),
            (''ticket'', query_get s ''ticket'')],
       headers = [] \<rparr>"

text \<open>
  \<^verbatim>\<open>_handleTicket\<close>. The SAML 1.1 branch builds its envelope from \<^verbatim>\<open>req.host\<close> and
  \<^verbatim>\<open>req.query.ticket\<close>; no \<^verbatim>\<open>req\<close> is declared anywhere, so evaluating the envelope
  throws a ReferenceError, outside the \<^verbatim>\<open>try\<close>.
\<close>

definition handleTicket :: "cas \<Rightarrow> env \<Rightarrow> state \<Rightarrow> completion" where
  "handleTicket C E s =
     (if cas_version C \<in> {V1, V2, V3} then
        (let requestOptions = get_request C E s
         in case request C E requestOptions s of
              (Inl err, s1) \<Rightarrow> Done (s1\<lparr>status := Some 401\<rparr>)
            | (Inr body, s1) \<Rightarrow>
                (case validate (cas_version C) E body of
                   Inl err \<Rightarrow> Done (s1\<lparr>status := Some 401\<rparr>)
                 | Inr (Failure msg) \<Rightarrow> Done (s1\<lparr>status := Some 401\<rparr>)
                 | Inr (Success user attributes) \<Rightarrow>
                     Done (commit_success C user attributes s1)))
      else Thrown (ReferenceError ''req''))"

text \<open>\<^verbatim>\<open>_handle\<close>\<close>

definition handle :: "cas \<Rightarrow> env \<Rightarrow> state \<Rightarrow> AUTH_TYPE \<Rightarrow> completion" where
  "handle C E s authType =
     (if js_truthy (session_get s (js_to_string (session_name C))) then
        (if authType = BOUNCE_REDIRECT then Done (redirect (query_get s ''redirectTo'') s)
         else Done (call_next s))
      else if is_dev_mode C then
        Done (call_next
               (session_set (js_to_string (session_info C)) (dev_mode_info C)
                 (session_set (js_to_string (session_name C)) (dev_mode_user C) s)))
      else if authType = BLOCK then Done (s\<lparr>status := Some 401\<rparr>)
      else if js_truthy (query_get s ''ticket'') then handleTicket C E s
      else Done (login C E s))"

section \<open>The specification's reading of the status code\<close>

text \<open>
  Section 4.1 of the specification: the status code is the value after the last colon of
  the status-code attribute. This definition follows those words, to be compared with
  \<open>saml_status\<close>, which follows the code.
\<close>

definition after_last_colon :: "string \<Rightarrow> string" where
  "after_last_colon v = rev (takeWhile (\<lambda>x. x \<noteq> CHR '':'') (rev v))"

section \<open>Example collaborators and requests\<close>

text \<open>
  Stand-ins for the libraries, for the examples below: a URL parser that knows the CAS
  URL of the examples and takes any other string as a path with an optional query, a
  formatter for the queries of the examples, an XML parser that knows six
  documents (with the results xml2js gives for them) and reports an error on anything
  else, and an HTTP client that answers every request with one fixed response.
\<close>

definition example_url_parse :: "string \<Rightarrow> parsed_url" where
  "example_url_parse u =
     (if u = ''https://cas.example.org/cas''
      then \<lparr> protocol = ''https:'', hostname = ''cas.example.org'', port = [],
             pathname = ''/cas'', path = ''/cas'' \<rparr>
      else \<lparr> protocol = [], hostname = [], port = [],
             pathname = takeWhile (\<lambda>c. c \<noteq> CHR ''?'') u, path = u \<rparr>)"

text \<open>
  The formatter follows Node's \<^verbatim>\<open>url.format\<close> for a pathname without \<^verbatim>\<open>?\<close> and \<^verbatim>\<open>#\<close> and a
  query whose values are strings or booleans: keys and values are percent-encoded as
  \<^verbatim>\<open>querystring.escape\<close> does (every byte but letters, digits and \<^verbatim>\<open>-_.!~*'()\<close>), a boolean is
  \<^verbatim>\<open>true\<close> or \<^verbatim>\<open>false\<close>, and any other value is the empty string.
\<close>

definition qs_unreserved :: "char \<Rightarrow> bool" where
  "qs_unreserved c =
     (c \<in> set ''ABCDEFGHIJKLMNOPQRSTUVWXYZabcdefghijklmnopqrstuvwxyz0123456789-_.!~*()''
      \<or> c = CHR 0x27)"

definition hex_digit :: "nat \<Rightarrow> char" where
  "hex_digit n = ''0123456789ABCDEF'' ! n"

definition qs_escape :: "string \<Rightarrow> string" where
  "qs_escape s =
     concat (map (\<lambda>c. if qs_unreserved c then [c]
                       else [CHR ''%'', hex_digit (of_char c div 16), hex_digit (of_char c mod 16)])
               s)"

fun stringifyPrimitive :: "jsval \<Rightarrow> string" where
  "stringifyPrimitive (JStr s) = s"
| "stringifyPrimitive (JBool b) = (if b then ''true'' else ''false'')"
| "stringifyPrimitive v = []"

fun example_query :: "(string \<times> jsval) list \<Rightarrow> string" where
  "example_query [] = []"
| "example_query [(k, v)] = qs_escape k @ ''='' @ qs_escape (stringifyPrimitive v)"
| "example_query ((k, v) # kv # rest) =
     qs_escape k @ ''='' @ qs_escape (stringifyPrimitive v) @ ''&'' @ example_query (kv # rest)"

definition example_url_format :: "string \<Rightarrow> (string \<times> jsval) list \<Rightarrow> string" where
  "example_url_format p q = p @ (if example_query q = [] then [] else ''?'' @ example_query q)"

definition xml_success :: string where
  "xml_success = ''<cas:serviceResponse><cas:authenticationSuccess><cas:user>bob</cas:user></cas:authenticationSuccess></cas:serviceResponse>''"

definition xml_failure :: string where
  "xml_failure = ''<cas:serviceResponse><cas:authenticationFailure code='' @ [CHR 0x22]
     @ ''INVALID_TICKET'' @ [CHR 0x22]
     @ ''>no such ticket</cas:authenticationFailure></cas:serviceResponse>''"

definition xml_saml_status :: "string \<Rightarrow> string" where
  "xml_saml_status v = ''<Envelope><Body><Response><Status><StatusCode Value='' @ [CHR 0x22]
     @ v @ [CHR 0x22] @ ''/></Status></Response></Body></Envelope>''"

text \<open>An authentication-success element that carries a proxy ticket and no user.\<close>

definition xml_no_user :: string where
  "xml_no_user = ''<cas:serviceResponse><cas:authenticationSuccess><cas:proxyGrantingTicket>PGT-1</cas:proxyGrantingTicket></cas:authenticationSuccess></cas:serviceResponse>''"

definition xml_logout :: string where
  "xml_logout = ''<samlp:LogoutRequest><samlp:SessionIndex>ST-1</samlp:SessionIndex></samlp:LogoutRequest>''"

definition example_parseXML :: "jsval \<Rightarrow> js_error + jsval" where
  "example_parseXML x =
     (if x = JStr xml_success then
        Inr (JObj [(''serviceresponse'',
               JObj [(''authenticationsuccess'', JObj [(''user'', JStr ''bob'')])])])
      else if x = JStr xml_failure then
        Inr (JObj [(''serviceresponse'',
               JObj [(''authenticationfailure'',
                 JObj [(''_'', JStr ''no such ticket''),
                       (''$'', JObj [(''code'', JStr ''INVALID_TICKET'')])])])])
      else if x = JStr (xml_saml_status ''a:b:Success'') then
        Inr (JObj [(''envelope'', JObj [(''body'', JObj [(''response'',
               JObj [(''status'', JObj [(''statuscode'',
                 JObj [(''$'', JObj [(''Value'', JStr ''a:b:Success'')])])])])])])])
      else if x = JStr (xml_saml_status ''samlp:Responder'') then
        Inr (JObj [(''envelope'', JObj [(''body'', JObj [(''response'',
               JObj [(''status'', JObj [(''statuscode'',
                 JObj [(''$'', JObj [(''Value'', JStr ''samlp:Responder'')])])])])])])])
      else if x = JStr xml_logout then
        Inr (JObj [(''logoutrequest'', JObj [(''sessionindex'', JStr ''ST-1'')])])
      else if x = JStr xml_no_user then
        Inr (JObj [(''serviceresponse'',
               JObj [(''authenticationsuccess'',
                 JObj [(''proxygrantingticket'', JStr ''PGT-1'')])])])
      else Inl (Error ''Non-whitespace before first tag.''))"

definition example_env :: "js_error + string \<Rightarrow> env" where
  "example_env response =
     \<lparr> url_parse = example_url_parse,
       url_format = example_url_format,
       parseXML = example_parseXML,
       http_request = (\<lambda>requestOptions. response) \<rparr>"

definition example_options :: options where
  "example_options =
     \<lparr> opt_cas_url = JStr ''https://cas.example.org/cas'',
       opt_service_url = JStr ''https://app.example.org'',
       opt_cas_version = JUndef,
       opt_renew = JUndef,
       opt_is_dev_mode = JUndef,
       opt_dev_mode_user = JUndef,
       opt_dev_mode_info = JUndef,
       opt_session_name = JUndef,
       opt_session_info = JUndef,
       opt_destroy_session = JUndef,
       opt_logout_redirect_url = JUndef,
       opt_single_logout = JUndef \<rparr>"

text \<open>The instance that \<open>Cas\<close> builds from \<open>example_options\<close>: version 3.0, all defaults.\<close>

definition example_cas :: cas where
  "example_cas =
     \<lparr> cas_version = V3,
       cas_url = ''https://cas.example.org/cas'',
       cas_host = ''cas.example.org'',
       cas_port = PortNum 443,
       cas_path = ''/cas'',
       service_url = JStr ''https://app.example.org'',
       renew = False,
       is_dev_mode = False,
       dev_mode_user = JStr [],
       dev_mode_info = JObj [],
       session_name = JStr ''cas_user'',
       session_info = JBool False,
       destroy_session = False,
       logout_redirect_url = JUndef,
       single_logout = False \<rparr>"

text \<open>Dev mode switched on, with a dev user and dev attributes; no attributes slot.\<close>

definition example_dev_options :: options where
  "example_dev_options =
     example_options
       \<lparr> opt_is_dev_mode := JBool True,
         opt_dev_mode_user := JStr ''dev'',
         opt_dev_mode_info := JObj [(''role'', JStr ''admin'')] \<rparr>"

definition example_dev_cas :: cas where
  "example_dev_cas =
     example_cas
       \<lparr> is_dev_mode := True,
         dev_mode_user := JStr ''dev'',
         dev_mode_info := JObj [(''role'', JStr ''admin'')] \<rparr>"

text \<open>Single logout switched on.\<close>

definition example_slo_cas :: cas where
  "example_slo_cas = example_cas\<lparr>single_logout := True\<rparr>"

text \<open>
  A request for \<^verbatim>\<open>/app\<close> with the given query on a fresh session whose external key is
  \<^verbatim>\<open>sess-9\<close>, before the code has touched the response; the store holds the given
  entries and fails as the given list says.
\<close>

definition example_state ::
  "(string \<rightharpoonup> jsval) \<Rightarrow> (jsval \<rightharpoonup> jsval \<times> nat) \<Rightarrow> bool list \<Rightarrow> state" where
  "example_state q es fs =
     \<lparr> session = Map.empty,
       externalKey = JStr ''sess-9'',
       store = \<lparr> entries = es, faults = fs \<rparr>,
       query = q,
       url = ''/app'',
       request_body = JObj [(''logoutRequest'', JStr xml_logout)],
       status = None,
       redirected = None,
       ctx_body = None,
       next_called = False,
       sent = [] \<rparr>"

definition ticket_query :: "string \<rightharpoonup> jsval" where
  "ticket_query = [''ticket'' \<mapsto> JStr ''ST-1'']"

text \<open>A store holding the session \<^verbatim>\<open>sess-9\<close> and the binding of ticket \<^verbatim>\<open>ST-1\<close> to it.\<close>

definition bound_entries :: "jsval \<rightharpoonup> jsval \<times> nat" where
  "bound_entries =
     [JStr ''sess-9'' \<mapsto> (JObj [(''cas_user'', JStr ''bob'')], ONE_DAY),
      JStr ''ST-1'' \<mapsto> (JObj [(''key'', JStr ''sess-9'')], ONE_DAY)]"

section \<open>Splitting strings\<close>

lemma split_on_unfold:
  "split_on c s = takeWhile (\<lambda>x. x \<noteq> c) s #
     (case dropWhile (\<lambda>x. x \<noteq> c) s of [] \<Rightarrow> [] | y # r \<Rightarrow> split_on c r)"
  by (induction s) (auto split: list.splits)

lemma split_on_no_sep:
  assumes "c \<notin> set s"
  shows "split_on c s = [s]"
  using assms by (induction s) auto

lemma split_on_sep:
  assumes "c \<in> set s"
  shows "split_on c s =
           takeWhile (\<lambda>x. x \<noteq> c) s # split_on c (tl (dropWhile (\<lambda>x. x \<noteq> c) s))"
  using assms by (induction s) (auto split: list.splits)

lemma split_on_index0:
  "js_index (split_on c s) 0 = JStr (takeWhile (\<lambda>x. x \<noteq> c) s)"
  by (subst split_on_unfold) (simp add: js_index_def)

lemma split_on_index1:
  "js_index (split_on c s) 1 =
     (if c \<in> set s
      then JStr (takeWhile (\<lambda>x. x \<noteq> c) (tl (dropWhile (\<lambda>x. x \<noteq> c) s)))
      else JUndef)"
proof (cases "c \<in> set s")
  case True
  have "split_on c (tl (dropWhile (\<lambda>x. x \<noteq> c) s)) =
          takeWhile (\<lambda>x. x \<noteq> c) (tl (dropWhile (\<lambda>x. x \<noteq> c) s)) #
          (case dropWhile (\<lambda>x. x \<noteq> c) (tl (dropWhile (\<lambda>x. x \<noteq> c) s)) of
             [] \<Rightarrow> [] | y # r \<Rightarrow> split_on c r)"
    by (rule split_on_unfold)
  with True show ?thesis
    by (simp add: split_on_sep js_index_def)
next
  case False
  then show ?thesis by (simp add: split_on_no_sep js_index_def)
qed

lemma split_on_length2: "2 \<le> length (split_on c s) \<longleftrightarrow> c \<in> set s"
proof (cases "c \<in> set s")
  case True
  have "split_on c (tl (dropWhile (\<lambda>x. x \<noteq> c) s)) \<noteq> []"
    by (subst split_on_unfold) simp
  then have "1 \<le> length (split_on c (tl (dropWhile (\<lambda>x. x \<noteq> c) s)))"
    by (cases "split_on c (tl (dropWhile (\<lambda>x. x \<noteq> c) s))") simp_all
  with True show ?thesis by (simp add: split_on_sep)
next
  case False
  then show ?thesis by (simp add: split_on_no_sep)
qed

lemma validate_v1_shape:
  "validate_v1 body =
     (if takeWhile (\<lambda>x. x \<noteq> CHR 0x0A) body = ''yes'' \<and> CHR 0x0A \<in> set body
        then Inr (Success (JStr (takeWhile (\<lambda>x. x \<noteq> CHR 0x0A)
                                   (tl (dropWhile (\<lambda>x. x \<noteq> CHR 0x0A) body)))) JUndef)
      else if takeWhile (\<lambda>x. x \<noteq> CHR 0x0A) body = ''no''
        then Inr (Failure ''CAS authentication failed.'')
      else Inr (Failure ''Response from CAS server was bad.''))"
  unfolding validate_v1_def Let_def split_on_index0 split_on_index1 split_on_length2
  by simp

lemma after_last_colon_one:
  assumes "count_list v (CHR '':'') = 1"
  shows "takeWhile (\<lambda>x. x \<noteq> CHR '':'') (tl (dropWhile (\<lambda>x. x \<noteq> CHR '':'') v)) = after_last_colon v"
proof -
  have "CHR '':'' \<in> set v" using assms
    by (metis count_list_0_iff zero_neq_one)
  then obtain a b where v: "v = a @ CHR '':'' # b" and a: "CHR '':'' \<notin> set a"
    by (meson split_list_first)
  from assms v a have b: "CHR '':'' \<notin> set b"
    by (simp add: count_list_0_iff)
  from a have "dropWhile (\<lambda>x. x \<noteq> CHR '':'') v = CHR '':'' # b"
    unfolding v by (subst dropWhile_append2) auto
  moreover from b have "takeWhile (\<lambda>x. x \<noteq> CHR '':'') b = b" by auto
  moreover from b have "takeWhile (\<lambda>x. x \<noteq> CHR '':'') (rev b @ CHR '':'' # rev a) = rev b"
    by (subst takeWhile_append2) auto
  ultimately show ?thesis by (simp add: after_last_colon_def v)
qed


lemma js_path_append:
  "js_path v (ps @ qs) = (case js_path v ps of Inl e \<Rightarrow> Inl e | Inr w \<Rightarrow> js_path w qs)"
  by (induction ps arbitrary: v) (auto split: sum.splits)

lemma validate_v1_yes:
  assumes "validate_v1 body = Inr (Success user attributes)"
  shows "\<exists>rest. body = ''yes'' @ CHR 0x0A # rest"
proof -
  let ?P = "\<lambda>x. x \<noteq> CHR 0x0A"
  from assms have y: "takeWhile ?P body = ''yes''" and n: "CHR 0x0A \<in> set body"
    by (auto simp: validate_v1_shape split: if_splits)
  from n have ne: "dropWhile ?P body \<noteq> []" by (simp add: dropWhile_eq_Nil_conv)
  then have "\<not> ?P (hd (dropWhile ?P body))" by (rule hd_dropWhile)
  then have "hd (dropWhile ?P body) = CHR 0x0A" by simp
  with ne have "dropWhile ?P body = CHR 0x0A # tl (dropWhile ?P body)"
    by (cases "dropWhile ?P body") simp_all
  with y have "takeWhile ?P body @ dropWhile ?P body = ''yes'' @ CHR 0x0A # tl (dropWhile ?P body)"
    by simp
  then have "body = ''yes'' @ CHR 0x0A # tl (dropWhile ?P body)"
    by (simp only: takeWhile_dropWhile_id)
  then show ?thesis by blast
qed

lemmas example_defs =
  example_env_def example_parseXML_def xml_success_def xml_failure_def xml_saml_status_def
  xml_logout_def xml_no_user_def

section \<open>Store operations\<close>

lemma next_fault_eq:
  "next_fault S = (\<not> succeeds 1 S, S\<lparr>faults := tl (faults S)\<rparr>)"
  by (cases "faults S") (auto simp: next_fault_def succeeds_def)

lemma succeeds_Suc:
  "succeeds (Suc n) S \<longleftrightarrow> succeeds 1 S \<and> succeeds n (S\<lparr>faults := tl (faults S)\<rparr>)"
  by (cases "faults S") (auto simp: succeeds_def)

lemma succeeds_entries [simp]:
  "succeeds n (S\<lparr>entries := es\<rparr>) = succeeds n S"
  by (simp add: succeeds_def)

lemma store_get_ok:
  assumes "succeeds 1 S"
  shows "store_get k maxAge S =
           (Inr (case entries S k of None \<Rightarrow> JNull | Some (v, ttl) \<Rightarrow> v),
            S\<lparr>faults := tl (faults S)\<rparr>)"
  using assms by (simp add: store_get_def next_fault_eq)

lemma store_get_fail:
  assumes "\<not> succeeds 1 S"
  shows "store_get k maxAge S = (Inl (Error ''store''), S\<lparr>faults := tl (faults S)\<rparr>)"
  using assms by (simp add: store_get_def next_fault_eq)

lemma store_set_ok:
  assumes "succeeds 1 S"
  shows "store_set k v maxAge S =
           (Inr (), S\<lparr>faults := tl (faults S), entries := (entries S)(k \<mapsto> (v, maxAge))\<rparr>)"
  using assms by (simp add: store_set_def next_fault_eq)

lemma store_set_fail:
  assumes "\<not> succeeds 1 S"
  shows "store_set k v maxAge S = (Inl (Error ''store''), S\<lparr>faults := tl (faults S)\<rparr>)"
  using assms by (simp add: store_set_def next_fault_eq)

lemma store_destroy_ok:
  assumes "succeeds 1 S"
  shows "store_destroy k S =
           (Inr (), S\<lparr>faults := tl (faults S), entries := (entries S)(k := None)\<rparr>)"
  using assms by (simp add: store_destroy_def next_fault_eq)

lemma store_destroy_fail:
  assumes "\<not> succeeds 1 S"
  shows "store_destroy k S = (Inl (Error ''store''), S\<lparr>faults := tl (faults S)\<rparr>)"
  using assms by (simp add: store_destroy_def next_fault_eq)

section \<open>The 2.0 and 3.0 parser\<close>

lemma js_get_truthy:
  assumes "js_truthy v"
  shows "\<exists>w. js_get v p = Inr w"
  using assms by (cases v) simp_all

lemma js_path2:
  "js_path v [p, q] = (case js_get v p of Inl e \<Rightarrow> Inl e | Inr w \<Rightarrow> js_get w q)"
  by (simp split: sum.splits)




section \<open>The SAML 1.1 status code\<close>

text \<open>
  Claim C5, as the code has it. For a parsed SAML 1.1 response whose status-code attribute
  is the string \<open>v\<close>, the status code is the second of the fields that the colons of \<open>v\<close>
  separate: the text between the first colon and the second (or the end), and undefined
  when \<open>v\<close> has no colon. When \<open>v\<close> has exactly one colon this is the text after the last
  colon. Whenever the code is anything but \<^verbatim>\<open>Success\<close>, the outcome is the Failure
  ``CAS authentication failed (code).''.
\<close>

theorem saml_status_code_field:
  assumes "parseXML E (JStr body) = Inr result"
    and "js_path result
           [''envelope'', ''body'', ''response'', ''status'', ''statuscode'', ''$'', ''Value'']
         = Inr (JStr v)"
  shows
    "saml_status (JStr v) =
       Inr (if CHR '':'' \<in> set v
            then JStr (takeWhile (\<lambda>x. x \<noteq> CHR '':'')
                         (tl (dropWhile (\<lambda>x. x \<noteq> CHR '':'') v)))
            else JUndef)
     \<and> (count_list v (CHR '':'') = 1
          \<longrightarrow> saml_status (JStr v) = Inr (JStr (after_last_colon v)))
     \<and> (saml_status (JStr v) = Inr code \<and> code \<noteq> JStr ''Success''
          \<longrightarrow> validate SAML1_1 E body =
                Inr (Failure (''CAS authentication failed ('' @ js_to_string code @ '').'')))"
proof (intro conjI impI)
  show st: "saml_status (JStr v) =
       Inr (if CHR '':'' \<in> set v
            then JStr (takeWhile (\<lambda>x. x \<noteq> CHR '':'')
                         (tl (dropWhile (\<lambda>x. x \<noteq> CHR '':'') v)))
            else JUndef)"
    by (simp add: saml_status_def split_on_index1 del: One_nat_def)
  show "saml_status (JStr v) = Inr (JStr (after_last_colon v))"
    if one: "count_list v (CHR '':'') = 1"
  proof -
    from one have "CHR '':'' \<in> set v"
      by (metis count_list_0_iff zero_neq_one)
    with st one show ?thesis
      by (simp add: after_last_colon_one)
  qed
  show "validate SAML1_1 E body =
          Inr (Failure (''CAS authentication failed ('' @ js_to_string code @ '').''))"
    if c: "saml_status (JStr v) = Inr code \<and> code \<noteq> JStr ''Success''"
  proof -
    have "js_path result ([''envelope'', ''body'', ''response'']
            @ [''status'', ''statuscode'', ''$'', ''Value'']) = Inr (JStr v)"
      using assms(2) by simp
    then obtain samlResponse where
      r: "js_path result [''envelope'', ''body'', ''response''] = Inr samlResponse"
      and w: "js_path samlResponse [''status'', ''statuscode'', ''$'', ''Value''] = Inr (JStr v)"
      unfolding js_path_append by (auto split: sum.splits)
    from assms(1) r w c show ?thesis
      by (simp add: validate_saml_def saml_try_def del: js_path.simps)
  qed
qed

text \<open>C5 as amended, at the status value \<^verbatim>\<open>samlp:Responder\<close>.\<close>

theorem saml_status_code_field_witness:
  "saml_status (JStr ''samlp:Responder'') = Inr (JStr ''Responder'')
   \<and> after_last_colon ''samlp:Responder'' = ''Responder''
   \<and> validate SAML1_1 (example_env (Inr [])) (xml_saml_status ''samlp:Responder'')
       = Inr (Failure ''CAS authentication failed (Responder).'')"
proof -
  let ?E = "example_env (Inr [])"
  let ?v = "''samlp:Responder''"
  let ?r = "JObj [(''envelope'', JObj [(''body'', JObj [(''response'',
               JObj [(''status'', JObj [(''statuscode'',
                 JObj [(''$'', JObj [(''Value'', JStr ?v)])])])])])])]"
  have p: "parseXML ?E (JStr (xml_saml_status ?v)) = Inr ?r"
    by (simp add: example_defs)
  have q: "js_path ?r
           [''envelope'', ''body'', ''response'', ''status'', ''statuscode'', ''$'', ''Value'']
         = Inr (JStr ?v)"
    by simp
  have one: "count_list ?v (CHR '':'') = 1"
    by simp
  have a: "after_last_colon ?v = ''Responder''"
    by (simp add: after_last_colon_def)
  have n: "JStr ''Responder'' \<noteq> JStr ''Success''"
    by simp
  note t = saml_status_code_field [where E = ?E and body = "xml_saml_status ?v"
      and result = ?r and v = ?v and code = "JStr ''Responder''", OF p q]
  from t [THEN conjunct2, THEN conjunct1, THEN mp, OF one]
  have s: "saml_status (JStr ?v) = Inr (JStr (after_last_colon ?v))" .
  then have s': "saml_status (JStr ?v) = Inr (JStr ''Responder'')"
    by (simp only: a)
  from t [THEN conjunct2, THEN conjunct2, THEN mp, OF conjI [OF s' n]]
  have "validate SAML1_1 ?E (xml_saml_status ?v)
       = Inr (Failure (''CAS authentication failed ('' @ js_to_string (JStr ''Responder'') @ '').''))" .
  then have w: "validate SAML1_1 ?E (xml_saml_status ?v)
       = Inr (Failure ''CAS authentication failed (Responder).'')"
    by simp
  from s' a w show ?thesis by (simp only: simp_thms)
qed

text \<open>
  Claim C5 as stated fails at the status value \<^verbatim>\<open>a:b:Success\<close>: the text after the last
  colon is \<^verbatim>\<open>Success\<close>, the code extracts \<^verbatim>\<open>b\<close> and reports a failure.
\<close>

theorem saml_status_last_colon_counterexample:
  "saml_status (JStr ''a:b:Success'') \<noteq> Inr (JStr (after_last_colon ''a:b:Success''))
   \<and> after_last_colon ''a:b:Success'' = ''Success''
   \<and> saml_status (JStr ''a:b:Success'') = Inr (JStr ''b'')
   \<and> validate SAML1_1 (example_env (Inr [])) (xml_saml_status ''a:b:Success'')
       = Inr (Failure ''CAS authentication failed (b).'')"
  by (simp add: after_last_colon_def saml_status_def js_index_def validate_saml_def
      saml_try_def example_defs)

section \<open>Ticket handling\<close>

lemma not_saml:
  assumes "cas_version C \<noteq> SAML1_1"
  shows "(cas_version C \<in> {V1, V2, V3}) = True"
  using assms by (cases "cas_version C") simp_all

lemma handleTicket_network_error:
  assumes "cas_version C \<noteq> SAML1_1"
    and "http_request E (get_request C E s) = Inl err"
  shows "handleTicket C E s =
           Done (s\<lparr>sent := sent s @ [get_request C E s], status := Some 401\<rparr>)"
  using assms by (simp add: handleTicket_def request_def not_saml Let_def del: insert_iff)

lemma handleTicket_failure:
  assumes "cas_version C \<noteq> SAML1_1"
    and "http_request E (get_request C E s) = Inr body"
    and "validate (cas_version C) E body = Inr (Failure msg)"
  shows "handleTicket C E s =
           Done (s\<lparr>sent := sent s @ [get_request C E s], status := Some 401\<rparr>)"
  using assms by (simp add: handleTicket_def request_def not_saml Let_def del: insert_iff)

lemma handleTicket_success:
  assumes "cas_version C \<noteq> SAML1_1"
    and "http_request E (get_request C E s) = Inr body"
    and "validate (cas_version C) E body = Inr (Success user attributes)"
  shows "handleTicket C E s =
           Done (commit_success C user attributes (s\<lparr>sent := sent s @ [get_request C E s]\<rparr>))"
  using assms by (simp add: handleTicket_def request_def not_saml Let_def del: insert_iff)

lemma commit_success_ok:
  assumes "single_logout C \<longrightarrow> succeeds 1 (store s)"
  shows "commit_success C user attributes s =
           (let sess = (if js_truthy (session_info C)
                        then (session s)(js_to_string (session_name C) \<mapsto> user,
                               js_to_string (session_info C) \<mapsto> js_or attributes (JObj []))
                        else (session s)(js_to_string (session_name C) \<mapsto> user))
            in s\<lparr> store :=
                    (if single_logout C
                     then (store s)\<lparr> faults := tl (faults (store s)),
                            entries := (entries (store s))
                              (query_get s ''ticket'' \<mapsto> (JObj [(''key'', externalKey s)], ONE_DAY)) \<rparr>
                     else store s),
                  session := sess,
                  redirected := Some (case sess ''cas_return_to'' of None \<Rightarrow> JUndef | Some v \<Rightarrow> v) \<rparr>)"
  using assms
  by (simp add: commit_success_def store_set_ok session_set_def session_get_def redirect_def
      query_get_def Let_def)

lemma commit_success_fail:
  assumes "single_logout C" and "\<not> succeeds 1 (store s)"
  shows "commit_success C user attributes s =
           s\<lparr>store := (store s)\<lparr>faults := tl (faults (store s))\<rparr>\<rparr>"
  using assms by (simp add: commit_success_def store_set_fail)

text \<open>
  Claim C9. With no identity in the session and dev mode off, a request handled in Block
  mode gets the status 401 and nothing else happens, whatever its query holds: a ticket in
  the query is not looked at, and no validation request is sent.
\<close>

theorem block_precedes_ticket:
  assumes "\<not> js_truthy (session_get s (js_to_string (session_name C)))"
    and "\<not> is_dev_mode C"
  shows "handle C E s BLOCK = Done (s\<lparr>status := Some 401\<rparr>)
         \<and> sent (s\<lparr>status := Some 401\<rparr>) = sent s"
  using assms by (simp add: handle_def)

text \<open>C9 for a request that carries the ticket \<^verbatim>\<open>ST-1\<close>.\<close>

theorem block_precedes_ticket_witness:
  "js_truthy (query_get (example_state ticket_query Map.empty []) ''ticket'')
   \<and> handle example_cas (example_env (Inr xml_success)) (example_state ticket_query Map.empty []) BLOCK
       = Done ((example_state ticket_query Map.empty [])\<lparr>status := Some 401\<rparr>)
   \<and> sent ((example_state ticket_query Map.empty [])\<lparr>status := Some 401\<rparr>) = []"
proof -
  let ?s = "example_state ticket_query Map.empty []"
  have a: "\<not> js_truthy (session_get ?s (js_to_string (session_name example_cas)))"
    by (simp add: example_state_def example_cas_def session_get_def)
  have b: "\<not> is_dev_mode example_cas"
    by (simp add: example_cas_def)
  have t: "js_truthy (query_get ?s ''ticket'')"
    by (simp add: example_state_def ticket_query_def query_get_def)
  have e: "sent ?s = []"
    by (simp add: example_state_def)
  from block_precedes_ticket [OF a b, of "example_env (Inr xml_success)"] t e
  show ?thesis by (simp only: simp_thms)
qed

text \<open>
  Claim C6 says that a SAML 1.1 validation sends a POST with the SOAP envelope. The code
  never gets there: for an instance of version \<^verbatim>\<open>saml1.1\<close>, a request with a ticket ends
  in a ReferenceError for \<^verbatim>\<open>req\<close>, and the list of sent requests stays empty.
\<close>

theorem saml_ticket_throws:
  "handle (example_cas\<lparr>cas_version := SAML1_1\<rparr>)
     (example_env (Inr (xml_saml_status ''samlp:Responder'')))
     (example_state ticket_query Map.empty []) BOUNCE
   = Thrown (ReferenceError ''req'')"
  by (simp add: handle_def handleTicket_def example_cas_def example_state_def session_get_def
      query_get_def ticket_query_def)


section \<open>Single logout\<close>

lemma destroy_st_ok:
  assumes "succeeds 1 (store s)"
  shows "destroy_st st s =
           s\<lparr>store := (store s)\<lparr>faults := tl (faults (store s)),
                                 entries := (entries (store s))(st := None)\<rparr>\<rparr>"
  using assms by (simp add: destroy_st_def store_destroy_ok)

lemma destroy_st_fail:
  assumes "\<not> succeeds 1 (store s)"
  shows "destroy_st st s =
           s\<lparr>store := (store s)\<lparr>faults := tl (faults (store s))\<rparr>, status := Some 202\<rparr>"
  using assms by (simp add: destroy_st_def store_destroy_fail)

lemma succeeds_2:
  "succeeds 2 S \<longleftrightarrow> succeeds 1 S \<and> succeeds 1 (S\<lparr>faults := tl (faults S)\<rparr>)"
  using succeeds_Suc [of 1 S] by (simp add: numeral_2_eq_2)

lemma succeeds_3:
  "succeeds 3 S \<longleftrightarrow>
     succeeds 1 S \<and> succeeds 1 (S\<lparr>faults := tl (faults S)\<rparr>)
     \<and> succeeds 1 (S\<lparr>faults := tl (tl (faults S))\<rparr>)"
  using succeeds_Suc [of 2 S] succeeds_2 [of "S\<lparr>faults := tl (faults S)\<rparr>"]
  by (simp add: numeral_3_eq_3 numeral_2_eq_2)

lemma drop_tl2: "tl (tl xs) = drop 2 xs"
  by (simp add: drop_Suc numeral_2_eq_2)

lemma drop_tl3: "tl (tl (tl xs)) = drop 3 xs"
  by (simp add: drop_Suc numeral_3_eq_3)

lemma handle_single_logout_parsed:
  assumes "single_logout C"
    and "js_get (request_body s) ''logoutRequest'' = Inr logoutRequest"
    and "parseXML E logoutRequest = Inr result"
    and "js_path result [''logoutrequest'', ''sessionindex''] = Inr st"
  shows "handle_single_logout C E s = Done ((slo_reconcile st s)\<lparr>ctx_body := Some ''ok''\<rparr>)"
  using assms by (simp add: handle_single_logout_def del: js_path.simps)

text \<open>The reconciliation for a binding that is found, by the fate of the two destroys.\<close>

lemma slo_reconcile_bound:
  assumes "succeeds 1 (store s)"
    and "entries (store s) st = Some (binding, ttl)"
    and "js_get binding ''key'' = Inr key" and "js_truthy key"
  shows "slo_reconcile st s =
           (if \<not> succeeds 1 ((store s)\<lparr>faults := tl (faults (store s))\<rparr>) then
              s\<lparr>store := (store s)\<lparr>faults := drop 2 (faults (store s))\<rparr>, status := Some 202\<rparr>
            else if \<not> succeeds 1 ((store s)\<lparr>faults := drop 2 (faults (store s))\<rparr>) then
              s\<lparr>store := (store s)\<lparr>faults := drop 3 (faults (store s)),
                                    entries := (entries (store s))(key := None)\<rparr>,
                status := Some 202\<rparr>
            else
              s\<lparr>store := (store s)\<lparr>faults := drop 3 (faults (store s)),
                                    entries := (entries (store s))(key := None, st := None)\<rparr>\<rparr>)"
proof -
  from assms(3,4) have b: "js_truthy binding"
    by (cases binding) auto
  show ?thesis
    using assms b
    by (simp add: slo_reconcile_def store_get_ok store_destroy_ok store_destroy_fail
        destroy_st_ok destroy_st_fail Let_def drop_tl2 [symmetric] drop_tl3 [symmetric])
qed

lemma slo_reconcile_status:
  "status (slo_reconcile st s) = status s \<or> status (slo_reconcile st s) = Some 202"
  by (auto simp: slo_reconcile_def destroy_st_def Let_def split: prod.splits sum.splits)

text \<open>
  Claim C8. Single logout is on, the notification parses and names a ticket for which the
  store holds a binding with a key. If reading the binding and destroying the bound
  session succeed and destroying the binding fails, the handler completes with the body
  \<^verbatim>\<open>ok\<close> and the status 202, and the store is left without the session entry: the failed
  step takes nothing back.
\<close>

theorem slo_partial_success:
  assumes "single_logout C"
    and "js_get (request_body s) ''logoutRequest'' = Inr logoutRequest"
    and "parseXML E logoutRequest = Inr result"
    and "js_path result [''logoutrequest'', ''sessionindex''] = Inr st"
    and "entries (store s) st = Some (binding, ttl)"
    and "js_get binding ''key'' = Inr key" and "js_truthy key"
    and "succeeds 2 (store s)" and "\<not> succeeds 3 (store s)"
  shows "handle_single_logout C E s =
           Done (s\<lparr>store := (store s)\<lparr>faults := drop 3 (faults (store s)),
                                       entries := (entries (store s))(key := None)\<rparr>,
                   status := Some 202,
                   ctx_body := Some ''ok''\<rparr>)"
proof -
  from assms(8,9) have f: "succeeds 1 (store s)"
    "succeeds 1 ((store s)\<lparr>faults := tl (faults (store s))\<rparr>)"
    "\<not> succeeds 1 ((store s)\<lparr>faults := drop 2 (faults (store s))\<rparr>)"
    by (simp_all add: succeeds_2 succeeds_3 drop_tl2)
  from f have "slo_reconcile st s =
      s\<lparr>store := (store s)\<lparr>faults := drop 3 (faults (store s)),
                            entries := (entries (store s))(key := None)\<rparr>,
        status := Some 202\<rparr>"
    by (simp add: slo_reconcile_bound [OF f(1) assms(5,6,7)])
  with handle_single_logout_parsed [OF assms(1-4)] show ?thesis
    by simp
qed


lemma example_logout_request:
  "js_get (request_body (example_state q es fs)) ''logoutRequest'' = Inr (JStr xml_logout)"
  "parseXML (example_env r) (JStr xml_logout)
     = Inr (JObj [(''logoutrequest'', JObj [(''sessionindex'', JStr ''ST-1'')])])"
  "js_path (JObj [(''logoutrequest'', JObj [(''sessionindex'', JStr ''ST-1'')])])
     [''logoutrequest'', ''sessionindex''] = Inr (JStr ''ST-1'')"
  by (simp_all add: example_state_def example_defs)

lemma example_binding:
  "entries (store (example_state q bound_entries fs)) (JStr ''ST-1'')
     = Some (JObj [(''key'', JStr ''sess-9'')], ONE_DAY)"
  "js_get (JObj [(''key'', JStr ''sess-9'')]) ''key'' = Inr (JStr ''sess-9'')"
  "js_truthy (JStr ''sess-9'')"
  by (simp_all add: example_state_def bound_entries_def)

text \<open>
  C8 for the binding of \<^verbatim>\<open>ST-1\<close> to \<^verbatim>\<open>sess-9\<close>, with a store whose third operation fails.
\<close>

theorem slo_partial_success_witness:
  "handle_single_logout example_slo_cas (example_env (Inr []))
     (example_state Map.empty bound_entries [False, False, True])
   = Done ((example_state Map.empty bound_entries [False, False, True])
            \<lparr>store := \<lparr>entries = bound_entries(JStr ''sess-9'' := None), faults = []\<rparr>,
              status := Some 202,
              ctx_body := Some ''ok''\<rparr>)"
proof -
  let ?s = "example_state Map.empty bound_entries [False, False, True]"
  have c: "single_logout example_slo_cas"
    by (simp add: example_slo_cas_def)
  have f: "succeeds 2 (store ?s)" "\<not> succeeds 3 (store ?s)"
    by (simp_all add: example_state_def succeeds_def)
  have e: "(store ?s)\<lparr>faults := drop 3 (faults (store ?s)),
                       entries := (entries (store ?s))(JStr ''sess-9'' := None)\<rparr>
           = \<lparr>entries = bound_entries(JStr ''sess-9'' := None), faults = []\<rparr>"
    by (simp add: example_state_def)
  from slo_partial_success [OF c example_logout_request example_binding f]
  show ?thesis by (simp only: e)
qed

lemma slo_reconcile_get_fail:
  assumes "\<not> succeeds 1 (store s)"
  shows "slo_reconcile st s =
           s\<lparr>store := (store s)\<lparr>faults := tl (faults (store s))\<rparr>, status := Some 202\<rparr>"
  using assms by (simp add: slo_reconcile_def store_get_fail)

text \<open>
  Claim C3 says that the handler answers \<^verbatim>\<open>ok\<close> whatever happens inside, also when the
  logout payload does not parse. With single logout on and the payload \<^verbatim>\<open>ST-1\<close>, which is
  not XML, the parse callback throws before its \<^verbatim>\<open>try\<close>, the awaited promise is never
  resolved, and the handler never completes: no body is ever assigned. A failing lookup in
  the store, by contrast, is caught and acknowledged with \<^verbatim>\<open>ok\<close> and the status 202.
\<close>

theorem single_logout_bad_payload_pending:
  "parseXML (example_env (Inr [])) (JStr ''ST-1'') = Inl (Error ''Non-whitespace before first tag.'')
   \<and> handle_single_logout example_slo_cas (example_env (Inr []))
       ((example_state Map.empty bound_entries [])
          \<lparr>request_body := JObj [(''logoutRequest'', JStr ''ST-1'')]\<rparr>)
     = Pending
   \<and> handle_single_logout example_slo_cas (example_env (Inr []))
       (example_state Map.empty bound_entries [True])
     = Done ((example_state Map.empty bound_entries [])
              \<lparr>status := Some 202, ctx_body := Some ''ok''\<rparr>)"
proof -
  let ?E = "example_env (Inr [])"
  have p: "parseXML ?E (JStr ''ST-1'') = Inl (Error ''Non-whitespace before first tag.'')"
    by (simp add: example_defs)
  have a: "handle_single_logout example_slo_cas ?E
       ((example_state Map.empty bound_entries [])
          \<lparr>request_body := JObj [(''logoutRequest'', JStr ''ST-1'')]\<rparr>) = Pending"
    by (simp add: handle_single_logout_def p example_slo_cas_def example_state_def)
  have c: "single_logout example_slo_cas"
    by (simp add: example_slo_cas_def)
  have f: "\<not> succeeds 1 (store (example_state Map.empty bound_entries [True]))"
    by (simp add: example_state_def succeeds_def)
  have b: "handle_single_logout example_slo_cas ?E (example_state Map.empty bound_entries [True])
     = Done ((example_state Map.empty bound_entries [])
              \<lparr>status := Some 202, ctx_body := Some ''ok''\<rparr>)"
    unfolding handle_single_logout_parsed [OF c example_logout_request]
      slo_reconcile_get_fail [OF f]
    by (simp add: example_state_def)
  from p a b show ?thesis by (simp only: simp_thms)
qed

section \<open>The binding of a ticket to a session\<close>

lemma ONE_DAY_ms: "ONE_DAY = 86400000"
  by (simp add: ONE_DAY_def)

lemma commit_success_entries:
  "entries (store (commit_success C user attributes s)) =
     (if single_logout C \<and> succeeds 1 (store s)
      then (entries (store s))
             (query_get s ''ticket'' \<mapsto> (JObj [(''key'', externalKey s)], ONE_DAY))
      else entries (store s))"
proof (cases "single_logout C \<and> \<not> succeeds 1 (store s)")
  case True
  then show ?thesis by (simp add: commit_success_fail)
next
  case False
  then have "single_logout C \<longrightarrow> succeeds 1 (store s)" by blast
  then show ?thesis by (simp add: commit_success_ok Let_def)
qed

text \<open>
  Claim C4, as the code has it. A successful validation (versions 1.0 to 3.0) stores the
  binding, the session's external key under the ticket with a TTL of 86400000 ms, exactly
  when single logout is on and the store's \<^verbatim>\<open>set\<close> succeeds; otherwise it leaves the
  entries of the store as they are, and so do a failed validation and a transport error.
  A reconciliation for a ticket whose binding is in the store always completes with the
  body \<^verbatim>\<open>ok\<close>, and by the fate of its store operations: when the lookup and both destroys
  succeed, the bound session entry and the binding are removed; when only the destroy of
  the binding fails, the entry under the bound session key alone is removed, so the
  binding stays unless that key is the ticket itself; when the destroy of the session
  entry fails, or the lookup fails, the entries stay as they are and the binding with
  them.
\<close>

theorem binding_lifecycle:
  "(cas_version C \<noteq> SAML1_1
      \<and> http_request E (get_request C E s) = Inr body
      \<and> validate (cas_version C) E body = Inr (Success user attributes)
      \<longrightarrow> handleTicket C E s =
            Done (commit_success C user attributes (s\<lparr>sent := sent s @ [get_request C E s]\<rparr>))
          \<and> entries (store (commit_success C user attributes
                               (s\<lparr>sent := sent s @ [get_request C E s]\<rparr>))) =
              (if single_logout C \<and> succeeds 1 (store s)
               then (entries (store s))
                      (query_get s ''ticket'' \<mapsto> (JObj [(''key'', externalKey s)], 86400000))
               else entries (store s)))
   \<and> (cas_version C \<noteq> SAML1_1
        \<and> (http_request E (get_request C E s) = Inl err
            \<or> http_request E (get_request C E s) = Inr body
               \<and> validate (cas_version C) E body = Inr (Failure msg))
      \<longrightarrow> handleTicket C E s =
            Done (s\<lparr>sent := sent s @ [get_request C E s], status := Some 401\<rparr>)
          \<and> entries (store (s\<lparr>sent := sent s @ [get_request C E s], status := Some 401\<rparr>))
              = entries (store s))
   \<and> (single_logout C
        \<and> js_get (request_body s) ''logoutRequest'' = Inr logoutRequest
        \<and> parseXML E logoutRequest = Inr result
        \<and> js_path result [''logoutrequest'', ''sessionindex''] = Inr st
        \<and> entries (store s) st = Some (binding, ttl)
        \<and> js_get binding ''key'' = Inr key \<and> js_truthy key
      \<longrightarrow> (succeeds 3 (store s)
             \<longrightarrow> handle_single_logout C E s =
                   Done (s\<lparr>store := (store s)\<lparr>faults := drop 3 (faults (store s)),
                             entries := (entries (store s))(key := None, st := None)\<rparr>,
                           ctx_body := Some ''ok''\<rparr>)
                 \<and> ((entries (store s))(key := None, st := None)) st = None
                 \<and> ((entries (store s))(key := None, st := None)) key = None)
          \<and> (succeeds 2 (store s) \<and> \<not> succeeds 3 (store s)
             \<longrightarrow> handle_single_logout C E s =
                   Done (s\<lparr>store := (store s)\<lparr>faults := drop 3 (faults (store s)),
                             entries := (entries (store s))(key := None)\<rparr>,
                           status := Some 202, ctx_body := Some ''ok''\<rparr>)
                 \<and> ((entries (store s))(key := None)) st
                     = (if key = st then None else Some (binding, ttl)))
          \<and> (succeeds 1 (store s) \<and> \<not> succeeds 2 (store s)
             \<longrightarrow> handle_single_logout C E s =
                   Done (s\<lparr>store := (store s)\<lparr>faults := drop 2 (faults (store s))\<rparr>,
                           status := Some 202, ctx_body := Some ''ok''\<rparr>)
                 \<and> entries ((store s)\<lparr>faults := drop 2 (faults (store s))\<rparr>) st
                     = Some (binding, ttl))
          \<and> (\<not> succeeds 1 (store s)
             \<longrightarrow> handle_single_logout C E s =
                   Done (s\<lparr>store := (store s)\<lparr>faults := tl (faults (store s))\<rparr>,
                           status := Some 202, ctx_body := Some ''ok''\<rparr>)
                 \<and> entries ((store s)\<lparr>faults := tl (faults (store s))\<rparr>) st
                     = Some (binding, ttl)))"
proof (intro conjI impI)
  assume a: "cas_version C \<noteq> SAML1_1
      \<and> http_request E (get_request C E s) = Inr body
      \<and> validate (cas_version C) E body = Inr (Success user attributes)"
  then show "handleTicket C E s =
      Done (commit_success C user attributes (s\<lparr>sent := sent s @ [get_request C E s]\<rparr>))"
    by (simp add: handleTicket_success)
  show "entries (store (commit_success C user attributes
                         (s\<lparr>sent := sent s @ [get_request C E s]\<rparr>))) =
          (if single_logout C \<and> succeeds 1 (store s)
           then (entries (store s))
                  (query_get s ''ticket'' \<mapsto> (JObj [(''key'', externalKey s)], 86400000))
           else entries (store s))"
    by (simp add: commit_success_entries ONE_DAY_ms query_get_def)
next
  assume "cas_version C \<noteq> SAML1_1
        \<and> (http_request E (get_request C E s) = Inl err
            \<or> http_request E (get_request C E s) = Inr body
               \<and> validate (cas_version C) E body = Inr (Failure msg))"
  then show "handleTicket C E s =
      Done (s\<lparr>sent := sent s @ [get_request C E s], status := Some 401\<rparr>)"
    using handleTicket_network_error handleTicket_failure by blast
  show "entries (store (s\<lparr>sent := sent s @ [get_request C E s], status := Some 401\<rparr>))
          = entries (store s)"
    by simp
next
  assume h: "single_logout C
        \<and> js_get (request_body s) ''logoutRequest'' = Inr logoutRequest
        \<and> parseXML E logoutRequest = Inr result
        \<and> js_path result [''logoutrequest'', ''sessionindex''] = Inr st
        \<and> entries (store s) st = Some (binding, ttl)
        \<and> js_get binding ''key'' = Inr key \<and> js_truthy key"
  then have p: "handle_single_logout C E s
                  = Done ((slo_reconcile st s)\<lparr>ctx_body := Some ''ok''\<rparr>)"
    by (simp add: handle_single_logout_parsed)
  show "((entries (store s))(key := None, st := None)) st = None"
    by simp
  show "((entries (store s))(key := None, st := None)) key = None"
    by simp
  from h show "((entries (store s))(key := None)) st
                 = (if key = st then None else Some (binding, ttl))"
    by simp
  from h show "entries ((store s)\<lparr>faults := drop 2 (faults (store s))\<rparr>) st
                 = Some (binding, ttl)"
    by simp
  from h show "entries ((store s)\<lparr>faults := tl (faults (store s))\<rparr>) st
                 = Some (binding, ttl)"
    by simp
  {
    assume "succeeds 3 (store s)"
    then have f: "succeeds 1 (store s)"
      "succeeds 1 ((store s)\<lparr>faults := tl (faults (store s))\<rparr>)"
      "succeeds 1 ((store s)\<lparr>faults := drop 2 (faults (store s))\<rparr>)"
      by (simp_all add: succeeds_3 drop_tl2)
    from h f show "handle_single_logout C E s =
        Done (s\<lparr>store := (store s)\<lparr>faults := drop 3 (faults (store s)),
                  entries := (entries (store s))(key := None, st := None)\<rparr>,
                ctx_body := Some ''ok''\<rparr>)"
      unfolding p by (simp add: slo_reconcile_bound [of s st binding ttl key])
  }
  {
    assume "succeeds 2 (store s) \<and> \<not> succeeds 3 (store s)"
    then have f: "succeeds 1 (store s)"
      "succeeds 1 ((store s)\<lparr>faults := tl (faults (store s))\<rparr>)"
      "\<not> succeeds 1 ((store s)\<lparr>faults := drop 2 (faults (store s))\<rparr>)"
      by (simp_all add: succeeds_2 succeeds_3 drop_tl2)
    from h f show "handle_single_logout C E s =
        Done (s\<lparr>store := (store s)\<lparr>faults := drop 3 (faults (store s)),
                  entries := (entries (store s))(key := None)\<rparr>,
                status := Some 202, ctx_body := Some ''ok''\<rparr>)"
      unfolding p by (simp add: slo_reconcile_bound [of s st binding ttl key])
  }
  {
    assume "succeeds 1 (store s) \<and> \<not> succeeds 2 (store s)"
    then have f: "succeeds 1 (store s)"
      "\<not> succeeds 1 ((store s)\<lparr>faults := tl (faults (store s))\<rparr>)"
      by (simp_all add: succeeds_2)
    from h f show "handle_single_logout C E s =
        Done (s\<lparr>store := (store s)\<lparr>faults := drop 2 (faults (store s))\<rparr>,
                status := Some 202, ctx_body := Some ''ok''\<rparr>)"
      unfolding p by (simp add: slo_reconcile_bound [of s st binding ttl key])
  }
  {
    assume "\<not> succeeds 1 (store s)"
    then show "handle_single_logout C E s =
        Done (s\<lparr>store := (store s)\<lparr>faults := tl (faults (store s))\<rparr>,
                status := Some 202, ctx_body := Some ''ok''\<rparr>)"
      unfolding p by (simp add: slo_reconcile_get_fail)
  }
qed

text \<open>The example collaborators at work.\<close>

lemma example_success:
  "validate V3 (example_env r) xml_success = Inr (Success (JStr ''bob'') JUndef)"
  by (simp add: validate_v2_def v2_try_def example_defs)

lemma example_failure:
  "validate V3 (example_env r) xml_failure
     = Inr (Failure ''CAS authentication failed (INVALID_TICKET).'')"
  by (simp add: validate_v2_def v2_try_def example_defs)

lemma example_versions:
  "cas_version example_cas = V3" "cas_version example_slo_cas = V3"
  "cas_version example_dev_cas = V3"
  by (simp_all add: example_cas_def example_slo_cas_def example_dev_cas_def)

lemma example_http:
  "http_request (example_env r) requestOptions = r"
  by (simp add: example_env_def)

text \<open>
  C4 as amended: the binding of \<^verbatim>\<open>ST-1\<close> to \<^verbatim>\<open>sess-9\<close> is stored on success with single
  logout on; a failed validation stores nothing; a reconciliation removes both entries,
  or the session entry alone (the binding stays), or nothing, by the fate of the store's
  operations.
\<close>

theorem binding_lifecycle_witness:
  "entries (store (commit_success example_slo_cas (JStr ''bob'') JUndef
              ((example_state ticket_query Map.empty [])
                 \<lparr>sent := [get_request example_slo_cas (example_env (Inr xml_success))
                             (example_state ticket_query Map.empty [])]\<rparr>)))
     = [JStr ''ST-1'' \<mapsto> (JObj [(''key'', JStr ''sess-9'')], 86400000)]
   \<and> handleTicket example_slo_cas (example_env (Inr xml_failure))
        (example_state ticket_query Map.empty [])
     = Done ((example_state ticket_query Map.empty [])
              \<lparr>sent := [get_request example_slo_cas (example_env (Inr xml_failure))
                          (example_state ticket_query Map.empty [])],
                status := Some 401\<rparr>)
   \<and> handle_single_logout example_slo_cas (example_env (Inr []))
        (example_state Map.empty bound_entries [])
     = Done ((example_state Map.empty bound_entries [])
              \<lparr>store := \<lparr>entries = bound_entries(JStr ''sess-9'' := None, JStr ''ST-1'' := None),
                         faults = []\<rparr>,
                ctx_body := Some ''ok''\<rparr>)
   \<and> handle_single_logout example_slo_cas (example_env (Inr []))
        (example_state Map.empty bound_entries [False, False, True])
     = Done ((example_state Map.empty bound_entries [])
              \<lparr>store := \<lparr>entries = bound_entries(JStr ''sess-9'' := None), faults = []\<rparr>,
                status := Some 202, ctx_body := Some ''ok''\<rparr>)
   \<and> (bound_entries(JStr ''sess-9'' := None)) (JStr ''ST-1'')
     = Some (JObj [(''key'', JStr ''sess-9'')], ONE_DAY)
   \<and> handle_single_logout example_slo_cas (example_env (Inr []))
        (example_state Map.empty bound_entries [False, True])
     = Done ((example_state Map.empty bound_entries [])
              \<lparr>status := Some 202, ctx_body := Some ''ok''\<rparr>)
   \<and> handle_single_logout example_slo_cas (example_env (Inr []))
        (example_state Map.empty bound_entries [True])
     = Done ((example_state Map.empty bound_entries [])
              \<lparr>status := Some 202, ctx_body := Some ''ok''\<rparr>)
   \<and> entries (store (example_state Map.empty bound_entries [])) (JStr ''ST-1'')
     = Some (JObj [(''key'', JStr ''sess-9'')], ONE_DAY)"
proof -
  let ?C = example_slo_cas
  let ?s = "example_state ticket_query Map.empty []"
  let ?E1 = "example_env (Inr xml_success)"
  let ?E2 = "example_env (Inr xml_failure)"
  let ?E = "example_env (Inr [])"
  let ?r = "JObj [(''logoutrequest'', JObj [(''sessionindex'', JStr ''ST-1'')])]"
  let ?b = "JObj [(''key'', JStr ''sess-9'')]"
  have v: "cas_version ?C \<noteq> SAML1_1"
    by (simp add: example_versions)
  have c: "single_logout ?C"
    by (simp add: example_slo_cas_def)
  have h1: "http_request ?E1 (get_request ?C ?E1 ?s) = Inr xml_success"
    and h2: "http_request ?E2 (get_request ?C ?E2 ?s) = Inr xml_failure"
    by (simp_all only: example_http)
  have v1: "validate (cas_version ?C) ?E1 xml_success = Inr (Success (JStr ''bob'') JUndef)"
    and v2: "validate (cas_version ?C) ?E2 xml_failure
               = Inr (Failure ''CAS authentication failed (INVALID_TICKET).'')"
    by (simp_all only: example_versions example_success example_failure)
  have s0: "sent ?s = []" "succeeds 1 (store ?s)" "externalKey ?s = JStr ''sess-9''"
    "query_get ?s ''ticket'' = JStr ''ST-1''" "entries (store ?s) = Map.empty"
    by (simp_all add: example_state_def succeeds_def query_get_def ticket_query_def)
  from binding_lifecycle [where C = ?C and E = ?E1 and s = ?s and body = xml_success
      and user = "JStr ''bob''" and attributes = JUndef, THEN conjunct1, THEN mp,
      OF conjI [OF v conjI [OF h1 v1]], THEN conjunct2]
  have w1: "entries (store (commit_success ?C (JStr ''bob'') JUndef
              (?s\<lparr>sent := [get_request ?C ?E1 ?s]\<rparr>)))
     = [JStr ''ST-1'' \<mapsto> (JObj [(''key'', JStr ''sess-9'')], 86400000)]"
    by (simp add: s0 c del: One_nat_def)
  from binding_lifecycle [where C = ?C and E = ?E2 and s = ?s and body = xml_failure
      and msg = "''CAS authentication failed (INVALID_TICKET).''",
      THEN conjunct2, THEN conjunct1, THEN mp, OF conjI [OF v disjI2 [OF conjI [OF h2 v2]]],
      THEN conjunct1]
  have w2: "handleTicket ?C ?E2 ?s
      = Done (?s\<lparr>sent := [get_request ?C ?E2 ?s], status := Some 401\<rparr>)"
    by (simp add: s0)
  have f3: "succeeds 3 (store (example_state Map.empty bound_entries []))"
    and f4: "succeeds 2 (store (example_state Map.empty bound_entries [False, False, True]))
             \<and> \<not> succeeds 3 (store (example_state Map.empty bound_entries [False, False, True]))"
    and f5: "succeeds 1 (store (example_state Map.empty bound_entries [False, True]))
             \<and> \<not> succeeds 2 (store (example_state Map.empty bound_entries [False, True]))"
    by (simp_all add: example_state_def succeeds_def)
  note slo = binding_lifecycle [where C = ?C and E = ?E and logoutRequest = "JStr xml_logout"
      and result = ?r and st = "JStr ''ST-1''" and binding = ?b and ttl = ONE_DAY
      and key = "JStr ''sess-9''", THEN conjunct2, THEN conjunct2, THEN mp]
  have pre: "single_logout ?C
        \<and> js_get (request_body (example_state Map.empty bound_entries fs)) ''logoutRequest''
            = Inr (JStr xml_logout)
        \<and> parseXML ?E (JStr xml_logout) = Inr ?r
        \<and> js_path ?r [''logoutrequest'', ''sessionindex''] = Inr (JStr ''ST-1'')
        \<and> entries (store (example_state Map.empty bound_entries fs)) (JStr ''ST-1'')
            = Some (?b, ONE_DAY)
        \<and> js_get ?b ''key'' = Inr (JStr ''sess-9'') \<and> js_truthy (JStr ''sess-9'')" for fs
    using c example_logout_request example_binding
    by (simp only: simp_thms)
  from slo [OF pre, THEN conjunct1, THEN mp, OF f3, THEN conjunct1]
  have w3: "handle_single_logout ?C ?E (example_state Map.empty bound_entries [])
     = Done ((example_state Map.empty bound_entries [])
              \<lparr>store := \<lparr>entries = bound_entries(JStr ''sess-9'' := None, JStr ''ST-1'' := None),
                         faults = []\<rparr>,
                ctx_body := Some ''ok''\<rparr>)"
    by (simp add: example_state_def)
  from slo [OF pre, THEN conjunct2, THEN conjunct1, THEN mp, OF f4, THEN conjunct2]
  have w4b: "(bound_entries(JStr ''sess-9'' := None)) (JStr ''ST-1'')
     = Some (JObj [(''key'', JStr ''sess-9'')], ONE_DAY)"
    by (simp add: example_state_def)
  from slo [OF pre, THEN conjunct2, THEN conjunct1, THEN mp, OF f4, THEN conjunct1]
  have w4: "handle_single_logout ?C ?E (example_state Map.empty bound_entries [False, False, True])
     = Done ((example_state Map.empty bound_entries [])
              \<lparr>store := \<lparr>entries = bound_entries(JStr ''sess-9'' := None), faults = []\<rparr>,
                status := Some 202, ctx_body := Some ''ok''\<rparr>)"
    by (simp add: example_state_def)
  from slo [OF pre, THEN conjunct2, THEN conjunct2, THEN conjunct1, THEN mp, OF f5,
      THEN conjunct1]
  have w5: "handle_single_logout ?C ?E (example_state Map.empty bound_entries [False, True])
     = Done ((example_state Map.empty bound_entries [])
              \<lparr>status := Some 202, ctx_body := Some ''ok''\<rparr>)"
    by (simp add: example_state_def)
  have f6: "\<not> succeeds 1 (store (example_state Map.empty bound_entries [True]))"
    by (simp add: example_state_def succeeds_def)
  from slo [OF pre, THEN conjunct2, THEN conjunct2, THEN conjunct2, THEN mp, OF f6,
      THEN conjunct1]
  have w6: "handle_single_logout ?C ?E (example_state Map.empty bound_entries [True])
     = Done ((example_state Map.empty bound_entries [])
              \<lparr>status := Some 202, ctx_body := Some ''ok''\<rparr>)"
    by (simp add: example_state_def)
  from slo [OF pre, THEN conjunct2, THEN conjunct2, THEN conjunct2, THEN mp, OF f6,
      THEN conjunct2]
  have w6b: "entries (store (example_state Map.empty bound_entries [])) (JStr ''ST-1'')
     = Some (JObj [(''key'', JStr ''sess-9'')], ONE_DAY)"
    by (simp add: example_state_def)
  from w1 w2 w3 w4 w4b w5 w6 w6b show ?thesis by (simp only: simp_thms)
qed

text \<open>
  Claim C4 as stated fails for a reconciliation in which destroying the session entry
  fails: the handler acknowledges, and the binding of \<^verbatim>\<open>ST-1\<close> is still in the store.
\<close>

theorem binding_survives_reconciliation_counterexample:
  "handle_single_logout example_slo_cas (example_env (Inr []))
     (example_state Map.empty bound_entries [False, True])
   = Done ((example_state Map.empty bound_entries [])
            \<lparr>status := Some 202, ctx_body := Some ''ok''\<rparr>)
   \<and> entries (store ((example_state Map.empty bound_entries [])
                       \<lparr>status := Some 202, ctx_body := Some ''ok''\<rparr>)) (JStr ''ST-1'')
     = Some (JObj [(''key'', JStr ''sess-9'')], ONE_DAY)"
  by (simp add: handle_single_logout_def slo_reconcile_def store_get_def store_destroy_def
      next_fault_def example_slo_cas_def example_cas_def example_state_def bound_entries_def
      example_defs)

section \<open>The decision of \<^verbatim>\<open>_handle\<close>\<close>

lemma handle_dev_mode:
  assumes "\<not> js_truthy (session_get s (js_to_string (session_name C)))" and "is_dev_mode C"
  shows "handle C E s authType =
           Done (s\<lparr>session := (session s)
                     (js_to_string (session_name C) \<mapsto> dev_mode_user C,
                      js_to_string (session_info C) \<mapsto> dev_mode_info C),
                   next_called := True\<rparr>)"
  using assms by (simp add: handle_def session_set_def call_next_def)

lemma Cas_session_info_default:
  assumes "Cas E opts = Inr C" and "opt_session_info opts = JUndef"
  shows "session_info C = JBool False"
  using assms
  by (auto simp: Cas_def Let_def split: if_splits option.splits jsval.splits)

lemma commit_success_session:
  assumes "single_logout C \<longrightarrow> succeeds 1 (store s)"
  shows "session (commit_success C user attributes s) =
           (if js_truthy (session_info C)
            then (session s)(js_to_string (session_name C) \<mapsto> user,
                   js_to_string (session_info C) \<mapsto> js_or attributes (JObj []))
            else (session s)(js_to_string (session_name C) \<mapsto> user))"
  using assms by (simp add: commit_success_ok Let_def)

text \<open>
  Claim C10. In dev mode, a request without an identity gets the dev user under the
  identity slot and the dev attributes under the key that \<^verbatim>\<open>session_info\<close> converts to,
  whether or not an attributes slot is configured; an instance built from options without
  \<^verbatim>\<open>session_info\<close> has \<^verbatim>\<open>session_info = false\<close>, so that key is the string \<^verbatim>\<open>false\<close>. The
  success path of the ticket validation writes the identity slot, and the attributes slot
  only when \<^verbatim>\<open>session_info\<close> is truthy; every other slot of the session stays as it was.
\<close>

theorem dev_mode_attributes_unconditional:
  "(\<not> js_truthy (session_get s (js_to_string (session_name C))) \<and> is_dev_mode C
      \<longrightarrow> handle C E s authType =
            Done (s\<lparr>session := (session s)
                      (js_to_string (session_name C) \<mapsto> dev_mode_user C,
                       js_to_string (session_info C) \<mapsto> dev_mode_info C),
                    next_called := True\<rparr>))
   \<and> (Cas E opts = Inr C \<and> opt_session_info opts = JUndef
      \<longrightarrow> session_info C = JBool False \<and> js_to_string (session_info C) = ''false'')
   \<and> (cas_version C \<noteq> SAML1_1
        \<and> http_request E (get_request C E s) = Inr body
        \<and> validate (cas_version C) E body = Inr (Success user attributes)
        \<and> (single_logout C \<longrightarrow> succeeds 1 (store s))
      \<longrightarrow> handleTicket C E s =
            Done (commit_success C user attributes (s\<lparr>sent := sent s @ [get_request C E s]\<rparr>))
          \<and> session (commit_success C user attributes
                       (s\<lparr>sent := sent s @ [get_request C E s]\<rparr>)) =
              (if js_truthy (session_info C)
               then (session s)(js_to_string (session_name C) \<mapsto> user,
                      js_to_string (session_info C) \<mapsto> js_or attributes (JObj []))
               else (session s)(js_to_string (session_name C) \<mapsto> user)))"
proof (intro conjI impI)
  assume "\<not> js_truthy (session_get s (js_to_string (session_name C))) \<and> is_dev_mode C"
  then show "handle C E s authType =
            Done (s\<lparr>session := (session s)
                      (js_to_string (session_name C) \<mapsto> dev_mode_user C,
                       js_to_string (session_info C) \<mapsto> dev_mode_info C),
                    next_called := True\<rparr>)"
    by (simp add: handle_dev_mode)
next
  assume a: "Cas E opts = Inr C \<and> opt_session_info opts = JUndef"
  then show i: "session_info C = JBool False"
    using Cas_session_info_default by blast
  then show "js_to_string (session_info C) = ''false''"
    by simp
next
  assume a: "cas_version C \<noteq> SAML1_1
        \<and> http_request E (get_request C E s) = Inr body
        \<and> validate (cas_version C) E body = Inr (Success user attributes)
        \<and> (single_logout C \<longrightarrow> succeeds 1 (store s))"
  then show "handleTicket C E s =
      Done (commit_success C user attributes (s\<lparr>sent := sent s @ [get_request C E s]\<rparr>))"
    by (simp add: handleTicket_success)
  from a have "single_logout C \<longrightarrow> succeeds 1 (store (s\<lparr>sent := sent s @ [get_request C E s]\<rparr>))"
    by simp
  then show "session (commit_success C user attributes
                       (s\<lparr>sent := sent s @ [get_request C E s]\<rparr>)) =
              (if js_truthy (session_info C)
               then (session s)(js_to_string (session_name C) \<mapsto> user,
                      js_to_string (session_info C) \<mapsto> js_or attributes (JObj []))
               else (session s)(js_to_string (session_name C) \<mapsto> user))"
    by (simp add: commit_success_session del: One_nat_def)
qed

text \<open>
  C10 for the instance built from the dev-mode options, and for a successful validation
  with the default instance, which has no attributes slot.
\<close>

theorem dev_mode_attributes_unconditional_witness:
  "Cas (example_env (Inr [])) example_dev_options = Inr example_dev_cas
   \<and> js_to_string (session_info example_dev_cas) = ''false''
   \<and> handle example_dev_cas (example_env (Inr [])) (example_state Map.empty Map.empty []) BOUNCE
     = Done ((example_state Map.empty Map.empty [])
              \<lparr>session := [''cas_user'' \<mapsto> JStr ''dev'',
                           ''false'' \<mapsto> JObj [(''role'', JStr ''admin'')]],
                next_called := True\<rparr>)
   \<and> session (commit_success example_cas (JStr ''bob'') JUndef
               ((example_state ticket_query Map.empty [])
                  \<lparr>sent := [get_request example_cas (example_env (Inr xml_success))
                              (example_state ticket_query Map.empty [])]\<rparr>))
     = [''cas_user'' \<mapsto> JStr ''bob'']"
proof -
  let ?E = "example_env (Inr [])"
  let ?E1 = "example_env (Inr xml_success)"
  let ?sa = "example_state Map.empty Map.empty []"
  let ?s = "example_state ticket_query Map.empty []"
  have k: "Cas ?E example_dev_options = Inr example_dev_cas"
    by (simp add: Cas_def example_env_def example_dev_options_def example_options_def
        example_dev_cas_def example_cas_def defined_or_def parse_version_def flag_def
        example_url_parse_def Let_def)
  have u: "opt_session_info example_dev_options = JUndef"
    by (simp add: example_dev_options_def example_options_def)
  have d: "\<not> js_truthy (session_get ?sa (js_to_string (session_name example_dev_cas)))
            \<and> is_dev_mode example_dev_cas"
    by (simp add: example_state_def example_dev_cas_def example_cas_def session_get_def)
  note t = dev_mode_attributes_unconditional [where C = example_dev_cas and E = ?E
      and opts = example_dev_options and s = ?sa and authType = BOUNCE]
  from t [THEN conjunct2, THEN conjunct1, THEN mp, OF conjI [OF k u], THEN conjunct2]
  have f: "js_to_string (session_info example_dev_cas) = ''false''" .
  from t [THEN conjunct1, THEN mp, OF d]
  have w1: "handle example_dev_cas ?E ?sa BOUNCE
     = Done (?sa\<lparr>session := [''cas_user'' \<mapsto> JStr ''dev'',
                              ''false'' \<mapsto> JObj [(''role'', JStr ''admin'')]],
                  next_called := True\<rparr>)"
    by (simp add: f) (simp add: example_dev_cas_def example_cas_def example_state_def)
  have v: "cas_version example_cas \<noteq> SAML1_1"
    by (simp add: example_versions)
  have h: "http_request ?E1 (get_request example_cas ?E1 ?s) = Inr xml_success"
    by (simp only: example_http)
  have va: "validate (cas_version example_cas) ?E1 xml_success
              = Inr (Success (JStr ''bob'') JUndef)"
    by (simp only: example_versions example_success)
  have sl: "single_logout example_cas \<longrightarrow> succeeds 1 (store ?s)"
    by (simp add: example_cas_def)
  note p = conjI [OF v conjI [OF h conjI [OF va sl]]]
  from dev_mode_attributes_unconditional [where C = example_cas and E = ?E1 and s = ?s
      and body = xml_success and user = "JStr ''bob''" and attributes = JUndef,
      THEN conjunct2, THEN conjunct2, THEN mp, OF p, THEN conjunct2]
  have w2: "session (commit_success example_cas (JStr ''bob'') JUndef
               (?s\<lparr>sent := [get_request example_cas ?E1 ?s]\<rparr>))
     = [''cas_user'' \<mapsto> JStr ''bob'']"
    by (simp add: example_cas_def example_state_def)
  from k f w1 w2 show ?thesis by (simp only: simp_thms)
qed


text \<open>The validation request of the examples, and the way to it.\<close>

lemma example_get_request:
  "get_request example_slo_cas (example_env r) (example_state ticket_query es fs) =
     \<lparr> host = ''cas.example.org'', port_opt = PortNum 443, method_opt = ''GET'',
       path_opt =
         ''/cas/p3/serviceValidate?service=https%3A%2F%2Fapp.example.org%2Fapp&ticket=ST-1'',
       headers = [] \<rparr>"
  by (simp add: get_request_def example_slo_cas_def example_cas_def example_env_def
      example_state_def example_url_format_def example_url_parse_def query_get_def
      ticket_query_def qs_escape_def qs_unreserved_def hex_digit_def)

lemma example_handle_ticket:
  "handle example_slo_cas E (example_state ticket_query es fs) BOUNCE
     = handleTicket example_slo_cas E (example_state ticket_query es fs)"
  by (simp add: handle_def example_slo_cas_def example_cas_def example_state_def
      session_get_def query_get_def ticket_query_def)

text \<open>
  Claim C1 says that a request whose ticket validates ends with the identity in the
  session and a redirect to the saved return URL, and that every request ends in
  proceeding, a redirect or a 401. For an instance of version 3.0 with single logout on, a
  request with the ticket \<^verbatim>\<open>ST-1\<close> and a store whose \<^verbatim>\<open>set\<close> fails, the validation request
  is sent and its outcome is Success, yet the request ends with nothing decided: no
  identity in the session, no redirect, no status, and \<^verbatim>\<open>next\<close> not called. When the
  outcome is a Failure, or the server cannot be reached, the same function sets 401.
\<close>

theorem failed_binding_write_no_response:
  "validate V3 (example_env (Inr xml_success)) xml_success = Inr (Success (JStr ''bob'') JUndef)
   \<and> handle example_slo_cas (example_env (Inr xml_success))
       (example_state ticket_query Map.empty [True]) BOUNCE
     = Done \<lparr> session = Map.empty,
              externalKey = JStr ''sess-9'',
              store = \<lparr> entries = Map.empty, faults = [] \<rparr>,
              query = ticket_query,
              url = ''/app'',
              request_body = JObj [(''logoutRequest'', JStr xml_logout)],
              status = None,
              redirected = None,
              ctx_body = None,
              next_called = False,
              sent = [\<lparr> host = ''cas.example.org'', port_opt = PortNum 443,
                        method_opt = ''GET'',
                        path_opt = ''/cas/p3/serviceValidate?service=https%3A%2F%2Fapp.example.org%2Fapp&ticket=ST-1'',
                        headers = [] \<rparr>] \<rparr>
   \<and> handle example_slo_cas (example_env (Inr xml_failure))
       (example_state ticket_query Map.empty [True]) BOUNCE
     = Done ((example_state ticket_query Map.empty [True])
              \<lparr>sent := [get_request example_slo_cas (example_env (Inr xml_failure))
                          (example_state ticket_query Map.empty [True])],
                status := Some 401\<rparr>)
   \<and> handle example_slo_cas (example_env (Inl (Error ''ECONNREFUSED'')))
       (example_state ticket_query Map.empty [True]) BOUNCE
     = Done ((example_state ticket_query Map.empty [True])
              \<lparr>sent := [get_request example_slo_cas (example_env (Inl (Error ''ECONNREFUSED'')))
                          (example_state ticket_query Map.empty [True])],
                status := Some 401\<rparr>)"
proof -
  let ?C = example_slo_cas
  let ?E = "example_env (Inr xml_success)"
  let ?Ef = "example_env (Inr xml_failure)"
  let ?En = "example_env (Inl (Error ''ECONNREFUSED''))"
  let ?s = "example_state ticket_query Map.empty [True]"
  have v: "validate (cas_version ?C) ?E xml_success = Inr (Success (JStr ''bob'') JUndef)"
    and vf: "validate (cas_version ?C) ?Ef xml_failure
               = Inr (Failure ''CAS authentication failed (INVALID_TICKET).'')"
    by (simp_all only: example_versions example_success example_failure)
  have n: "cas_version ?C \<noteq> SAML1_1"
    by (simp add: example_versions)
  have f: "single_logout ?C"
    "\<not> succeeds 1 (store (?s\<lparr>sent := sent ?s @ [get_request ?C ?E ?s]\<rparr>))"
    by (simp_all add: example_slo_cas_def example_state_def succeeds_def)
  have "handle ?C ?E ?s BOUNCE =
          Done ((?s\<lparr>sent := sent ?s @ [get_request ?C ?E ?s]\<rparr>)
                  \<lparr>store := (store (?s\<lparr>sent := sent ?s @ [get_request ?C ?E ?s]\<rparr>))
                      \<lparr>faults := tl (faults (store (?s\<lparr>sent := sent ?s @ [get_request ?C ?E ?s]\<rparr>)))\<rparr>\<rparr>)"
    unfolding example_handle_ticket handleTicket_success [OF n example_http v]
    by (simp only: commit_success_fail [OF f])
  then have a: "handle ?C ?E ?s BOUNCE
     = Done \<lparr> session = Map.empty,
              externalKey = JStr ''sess-9'',
              store = \<lparr> entries = Map.empty, faults = [] \<rparr>,
              query = ticket_query,
              url = ''/app'',
              request_body = JObj [(''logoutRequest'', JStr xml_logout)],
              status = None,
              redirected = None,
              ctx_body = None,
              next_called = False,
              sent = [\<lparr> host = ''cas.example.org'', port_opt = PortNum 443,
                        method_opt = ''GET'',
                        path_opt = ''/cas/p3/serviceValidate?service=https%3A%2F%2Fapp.example.org%2Fapp&ticket=ST-1'',
                        headers = [] \<rparr>] \<rparr>"
    unfolding example_get_request by (simp add: example_state_def)
  have s0: "sent ?s = []"
    by (simp add: example_state_def)
  have b: "handle ?C ?Ef ?s BOUNCE
     = Done (?s\<lparr>sent := [get_request ?C ?Ef ?s], status := Some 401\<rparr>)"
    unfolding example_handle_ticket handleTicket_failure [OF n example_http vf]
    by (simp add: s0)
  have c: "handle ?C ?En ?s BOUNCE
     = Done (?s\<lparr>sent := [get_request ?C ?En ?s], status := Some 401\<rparr>)"
    unfolding example_handle_ticket handleTicket_network_error [OF n example_http]
    by (simp add: s0)
  from v a b c show ?thesis
    unfolding example_versions by (simp only: simp_thms)
qed

section \<open>The outcomes of the parsers\<close>

lemma v2_try_Success_iff:
  "v2_try result = Inr (Success user attributes) \<longleftrightarrow>
     (\<exists>failure success.
        js_path result [''serviceresponse'', ''authenticationfailure''] = Inr failure
        \<and> \<not> js_truthy failure
        \<and> js_path result [''serviceresponse'', ''authenticationsuccess''] = Inr success
        \<and> js_truthy success
        \<and> js_get success ''user'' = Inr user
        \<and> js_get success ''attributes'' = Inr attributes)"
  unfolding v2_try_def
  by (auto split: sum.splits simp del: js_path.simps)

lemma saml_try_Success:
  assumes "saml_try result = Inr (Success user attributes)"
  shows "\<exists>samlResponse v a.
           js_path result [''envelope'', ''body'', ''response''] = Inr samlResponse
           \<and> js_path samlResponse [''status'', ''statuscode'', ''$'', ''Value''] = Inr v
           \<and> saml_status v = Inr (JStr ''Success'')
           \<and> js_path samlResponse [''assertion'', ''attributestatement'', ''attribute''] = Inr a
           \<and> js_path samlResponse
                 [''assertion'', ''authenticationstatement'', ''subject'', ''nameidentifier'']
               = Inr user"
  using assms unfolding saml_try_def
  by (auto split: sum.splits if_splits simp del: js_path.simps)

lemma outcome_cases:
  "(\<exists>msg. x = Inr (Failure msg)) \<or> (\<exists>user attributes. x = Inr (Success user attributes))"
  if "\<exists>out. x = Inr out" for x :: "js_error + outcome"
proof -
  from that obtain out where "x = Inr out" ..
  then show ?thesis by (cases out) auto
qed

lemma validate_total: "\<exists>out. validate v E body = Inr out"
  by (cases v)
     (auto simp: validate_v1_def validate_v2_def validate_saml_def Let_def split: sum.splits)

lemma validate_saml_Success:
  assumes "parseXML E (JStr body) = Inr result"
    and "validate SAML1_1 E body = Inr (Success user attributes)"
  shows "\<exists>v a.
           js_path result
             [''envelope'', ''body'', ''response'', ''status'', ''statuscode'', ''$'', ''Value'']
           = Inr v
           \<and> saml_status v = Inr (JStr ''Success'')
           \<and> js_path result
               [''envelope'', ''body'', ''response'',
                ''assertion'', ''attributestatement'', ''attribute''] = Inr a
           \<and> js_path result
               [''envelope'', ''body'', ''response'',
                ''assertion'', ''authenticationstatement'', ''subject'', ''nameidentifier'']
             = Inr user"
proof -
  from assms have "saml_try result = Inr (Success user attributes)"
    by (simp add: validate_saml_def split: sum.splits)
  from saml_try_Success [OF this] obtain samlResponse v a where
    r: "js_path result [''envelope'', ''body'', ''response''] = Inr samlResponse"
    and s: "js_path samlResponse [''status'', ''statuscode'', ''$'', ''Value''] = Inr v"
    "saml_status v = Inr (JStr ''Success'')"
    "js_path samlResponse [''assertion'', ''attributestatement'', ''attribute''] = Inr a"
    "js_path samlResponse
       [''assertion'', ''authenticationstatement'', ''subject'', ''nameidentifier''] = Inr user"
    by blast
  have p: "js_path result ([''envelope'', ''body'', ''response''] @ ps) = js_path samlResponse ps"
    for ps
    by (simp only: js_path_append r sum.case)
  from s p [of "[''status'', ''statuscode'', ''$'', ''Value'']"]
    p [of "[''assertion'', ''attributestatement'', ''attribute'']"]
    p [of "[''assertion'', ''authenticationstatement'', ''subject'', ''nameidentifier'']"]
  show ?thesis by (simp del: js_path.simps)
qed

text \<open>
  Claim C2, as the code has it. For each of the four versions and every response body the
  parser throws nothing to its caller and hands exactly one outcome to its callback, a
  Failure or a Success. Malformed input gives a Failure: for 1.0 a body that does not
  start with the line \<^verbatim>\<open>yes\<close> followed by a line break, for the XML versions a body that
  xml2js rejects (``Response from CAS server was bad.''). For 2.0 and 3.0 a parsed
  document gives Success exactly when its service response has no truthy
  authentication-failure element and has a truthy authentication-success element; the
  outcome then carries whatever that element holds as \<^verbatim>\<open>user\<close> and \<^verbatim>\<open>attributes\<close>, undefined
  included; every other parsed document gives a Failure. For SAML 1.1 a parsed document
  gives a Failure whenever reading the status-code attribute, the attribute element of
  the assertion or the name identifier of its subject throws, and whenever the status
  code extracted from the attribute is not \<^verbatim>\<open>Success\<close>.
\<close>

theorem validate_outcomes:
  "((\<exists>msg. validate v E body = Inr (Failure msg))
      \<or> (\<exists>user attributes. validate v E body = Inr (Success user attributes)))
   \<and> (v = V1 \<and> \<not> (\<exists>rest. body = ''yes'' @ CHR 0x0A # rest)
        \<longrightarrow> (\<exists>msg. validate v E body = Inr (Failure msg)))
   \<and> (v \<noteq> V1 \<and> parseXML E (JStr body) = Inl err
        \<longrightarrow> validate v E body = Inr (Failure ''Response from CAS server was bad.''))
   \<and> ((v = V2 \<or> v = V3) \<and> parseXML E (JStr body) = Inr result
        \<and> js_path result [''serviceresponse'', ''authenticationfailure''] = Inr failure
        \<and> \<not> js_truthy failure
        \<and> js_path result [''serviceresponse'', ''authenticationsuccess''] = Inr success
        \<and> js_truthy success
        \<longrightarrow> (\<exists>user attributes.
               js_get success ''user'' = Inr user
               \<and> js_get success ''attributes'' = Inr attributes
               \<and> validate v E body = Inr (Success user attributes)))
   \<and> ((v = V2 \<or> v = V3) \<and> parseXML E (JStr body) = Inr result
        \<and> \<not> (\<exists>f s. js_path result [''serviceresponse'', ''authenticationfailure''] = Inr f
                    \<and> \<not> js_truthy f
                    \<and> js_path result [''serviceresponse'', ''authenticationsuccess''] = Inr s
                    \<and> js_truthy s)
        \<longrightarrow> (\<exists>msg. validate v E body = Inr (Failure msg)))
   \<and> (v = SAML1_1 \<and> parseXML E (JStr body) = Inr result
        \<and> (js_path result
              [''envelope'', ''body'', ''response'', ''status'', ''statuscode'', ''$'', ''Value'']
              = Inl err
            \<or> js_path result
                 [''envelope'', ''body'', ''response'', ''status'', ''statuscode'', ''$'', ''Value'']
                 = Inr code
               \<and> saml_status code \<noteq> Inr (JStr ''Success'')
            \<or> js_path result
                 [''envelope'', ''body'', ''response'',
                  ''assertion'', ''attributestatement'', ''attribute''] = Inl err
            \<or> js_path result
                 [''envelope'', ''body'', ''response'',
                  ''assertion'', ''authenticationstatement'', ''subject'', ''nameidentifier'']
                 = Inl err)
        \<longrightarrow> (\<exists>msg. validate v E body = Inr (Failure msg)))"
proof (intro conjI impI)
  show t: "(\<exists>msg. validate v E body = Inr (Failure msg))
      \<or> (\<exists>user attributes. validate v E body = Inr (Success user attributes))"
    using validate_total by (rule outcome_cases)
  {
    assume a: "v = V1 \<and> \<not> (\<exists>rest. body = ''yes'' @ CHR 0x0A # rest)"
    with validate_v1_yes have "\<not> (\<exists>user attributes. validate v E body = Inr (Success user attributes))"
      by auto
    with t show "\<exists>msg. validate v E body = Inr (Failure msg)" by blast
  }
  {
    assume "v \<noteq> V1 \<and> parseXML E (JStr body) = Inl err"
    then show "validate v E body = Inr (Failure ''Response from CAS server was bad.'')"
      by (cases v) (simp_all add: validate_v2_def validate_saml_def)
  }
  {
    assume a: "(v = V2 \<or> v = V3) \<and> parseXML E (JStr body) = Inr result
        \<and> js_path result [''serviceresponse'', ''authenticationfailure''] = Inr failure
        \<and> \<not> js_truthy failure
        \<and> js_path result [''serviceresponse'', ''authenticationsuccess''] = Inr success
        \<and> js_truthy success"
    then obtain user attributes where
      g: "js_get success ''user'' = Inr user" "js_get success ''attributes'' = Inr attributes"
      using js_get_truthy by blast
    with a have "v2_try result = Inr (Success user attributes)"
      unfolding v2_try_Success_iff by blast
    with a have "validate v E body = Inr (Success user attributes)"
      by (auto simp: validate_v2_def)
    with g show "\<exists>user attributes.
               js_get success ''user'' = Inr user
               \<and> js_get success ''attributes'' = Inr attributes
               \<and> validate v E body = Inr (Success user attributes)"
      by blast
  }
  {
    assume a: "(v = V2 \<or> v = V3) \<and> parseXML E (JStr body) = Inr result
        \<and> \<not> (\<exists>f s. js_path result [''serviceresponse'', ''authenticationfailure''] = Inr f
                    \<and> \<not> js_truthy f
                    \<and> js_path result [''serviceresponse'', ''authenticationsuccess''] = Inr s
                    \<and> js_truthy s)"
    have "\<not> (\<exists>user attributes. validate v E body = Inr (Success user attributes))"
    proof
      assume "\<exists>user attributes. validate v E body = Inr (Success user attributes)"
      then obtain user attributes where "validate v E body = Inr (Success user attributes)"
        by blast
      with a have "v2_try result = Inr (Success user attributes)"
        by (auto simp: validate_v2_def split: sum.splits)
      with a show False
        unfolding v2_try_Success_iff by blast
    qed
    with t show "\<exists>msg. validate v E body = Inr (Failure msg)" by blast
  }
  {
    assume a: "v = SAML1_1 \<and> parseXML E (JStr body) = Inr result
        \<and> (js_path result
              [''envelope'', ''body'', ''response'', ''status'', ''statuscode'', ''$'', ''Value'']
              = Inl err
            \<or> js_path result
                 [''envelope'', ''body'', ''response'', ''status'', ''statuscode'', ''$'', ''Value'']
                 = Inr code
               \<and> saml_status code \<noteq> Inr (JStr ''Success'')
            \<or> js_path result
                 [''envelope'', ''body'', ''response'',
                  ''assertion'', ''attributestatement'', ''attribute''] = Inl err
            \<or> js_path result
                 [''envelope'', ''body'', ''response'',
                  ''assertion'', ''authenticationstatement'', ''subject'', ''nameidentifier'']
                 = Inl err)"
    have "\<not> (\<exists>user attributes. validate v E body = Inr (Success user attributes))"
    proof
      assume "\<exists>user attributes. validate v E body = Inr (Success user attributes)"
      then obtain user attributes where
        "validate SAML1_1 E body = Inr (Success user attributes)"
        using a by blast
      from validate_saml_Success [OF _ this, of result] a show False
        by (auto simp del: js_path.simps)
    qed
    with t show "\<exists>msg. validate v E body = Inr (Failure msg)" by blast
  }
qed


text \<open>
  C2 as amended: a 1.0 body without \<^verbatim>\<open>yes\<close>, a 2.0 body that is not XML, the success
  document, a logout document given to the 3.0 and the SAML 1.1 parser, and a SAML 1.1
  response with the status \<^verbatim>\<open>samlp:Responder\<close>.
\<close>

theorem validate_outcomes_witness:
  "validate V1 (example_env (Inr [])) ''maybe'' = Inr (Failure ''Response from CAS server was bad.'')
   \<and> validate V2 (example_env (Inr [])) ''<a>'' = Inr (Failure ''Response from CAS server was bad.'')
   \<and> validate V2 (example_env (Inr [])) xml_success = Inr (Success (JStr ''bob'') JUndef)
   \<and> validate V3 (example_env (Inr [])) xml_logout = Inr (Failure ''CAS authentication failed.'')
   \<and> validate SAML1_1 (example_env (Inr [])) xml_logout = Inr (Failure ''CAS authentication failed.'')
   \<and> validate SAML1_1 (example_env (Inr [])) (xml_saml_status ''samlp:Responder'')
       = Inr (Failure ''CAS authentication failed (Responder).'')"
proof -
  let ?E = "example_env (Inr [])"
  let ?u = "JObj [(''user'', JStr ''bob'')]"
  let ?ru = "JObj [(''serviceresponse'', JObj [(''authenticationsuccess'', ?u)])]"
  let ?rl = "JObj [(''logoutrequest'', JObj [(''sessionindex'', JStr ''ST-1'')])]"
  let ?rs = "JObj [(''envelope'', JObj [(''body'', JObj [(''response'',
               JObj [(''status'', JObj [(''statuscode'',
                 JObj [(''$'', JObj [(''Value'', JStr ''samlp:Responder'')])])])])])])]"
  have p1: "parseXML ?E (JStr ''<a>'') = Inl (Error ''Non-whitespace before first tag.'')"
    and p2: "parseXML ?E (JStr xml_success) = Inr ?ru"
    and p3: "parseXML ?E (JStr xml_logout) = Inr ?rl"
    and p4: "parseXML ?E (JStr (xml_saml_status ''samlp:Responder'')) = Inr ?rs"
    by (simp_all add: example_defs)
  have n: "\<not> (\<exists>rest. ''maybe'' = ''yes'' @ CHR 0x0A # rest)" by simp
  have "\<exists>msg. validate V1 ?E ''maybe'' = Inr (Failure msg)"
    using validate_outcomes [where v = V1 and E = ?E and body = "''maybe''",
        THEN conjunct2, THEN conjunct1] n
    by (simp only: simp_thms)
  then have w1: "validate V1 ?E ''maybe'' = Inr (Failure ''Response from CAS server was bad.'')"
    by (simp add: validate_v1_def Let_def js_index_def)
  have v2: "V2 \<noteq> V1" by simp
  from validate_outcomes [where v = V2 and E = ?E and body = "''<a>''"
      and err = "Error ''Non-whitespace before first tag.''",
      THEN conjunct2, THEN conjunct2, THEN conjunct1, THEN mp, OF conjI [OF v2 p1]]
  have w2: "validate V2 ?E ''<a>'' = Inr (Failure ''Response from CAS server was bad.'')" .
  have s3: "(V2 = V2 \<or> V2 = V3) \<and> parseXML ?E (JStr xml_success) = Inr ?ru
        \<and> js_path ?ru [''serviceresponse'', ''authenticationfailure''] = Inr JUndef
        \<and> \<not> js_truthy JUndef
        \<and> js_path ?ru [''serviceresponse'', ''authenticationsuccess''] = Inr ?u
        \<and> js_truthy ?u"
    using p2 by simp
  from validate_outcomes [where v = V2 and E = ?E and body = xml_success and result = ?ru
      and failure = JUndef and success = ?u,
      THEN conjunct2, THEN conjunct2, THEN conjunct2, THEN conjunct1, THEN mp, OF s3]
  have w3: "validate V2 ?E xml_success = Inr (Success (JStr ''bob'') JUndef)"
    by auto
  have s4: "(V3 = V2 \<or> V3 = V3) \<and> parseXML ?E (JStr xml_logout) = Inr ?rl
        \<and> \<not> (\<exists>f s. js_path ?rl [''serviceresponse'', ''authenticationfailure''] = Inr f
                    \<and> \<not> js_truthy f
                    \<and> js_path ?rl [''serviceresponse'', ''authenticationsuccess''] = Inr s
                    \<and> js_truthy s)"
    using p3 by simp
  from validate_outcomes [where v = V3 and E = ?E and body = xml_logout and result = ?rl,
      THEN conjunct2, THEN conjunct2, THEN conjunct2, THEN conjunct2, THEN conjunct1,
      THEN mp, OF s4]
  have "\<exists>msg. validate V3 ?E xml_logout = Inr (Failure msg)" .
  then have w4: "validate V3 ?E xml_logout = Inr (Failure ''CAS authentication failed.'')"
    by (simp add: validate_v2_def v2_try_def p3)
  have s5: "SAML1_1 = SAML1_1 \<and> parseXML ?E (JStr xml_logout) = Inr ?rl
        \<and> (js_path ?rl
              [''envelope'', ''body'', ''response'', ''status'', ''statuscode'', ''$'', ''Value'']
              = Inl (TypeError ''body'')
            \<or> js_path ?rl
                 [''envelope'', ''body'', ''response'', ''status'', ''statuscode'', ''$'', ''Value'']
                 = Inr JUndef
               \<and> saml_status JUndef \<noteq> Inr (JStr ''Success'')
            \<or> js_path ?rl
                 [''envelope'', ''body'', ''response'',
                  ''assertion'', ''attributestatement'', ''attribute''] = Inl (TypeError ''body'')
            \<or> js_path ?rl
                 [''envelope'', ''body'', ''response'',
                  ''assertion'', ''authenticationstatement'', ''subject'', ''nameidentifier'']
                 = Inl (TypeError ''body''))"
    using p3 by simp
  from validate_outcomes [where v = SAML1_1 and E = ?E and body = xml_logout and result = ?rl
      and err = "TypeError ''body''" and code = JUndef,
      THEN conjunct2, THEN conjunct2, THEN conjunct2, THEN conjunct2, THEN conjunct2,
      THEN mp, OF s5]
  have "\<exists>msg. validate SAML1_1 ?E xml_logout = Inr (Failure msg)" .
  then have w5: "validate SAML1_1 ?E xml_logout = Inr (Failure ''CAS authentication failed.'')"
    by (simp add: validate_saml_def saml_try_def p3)
  have s6: "SAML1_1 = SAML1_1
        \<and> parseXML ?E (JStr (xml_saml_status ''samlp:Responder'')) = Inr ?rs
        \<and> (js_path ?rs
              [''envelope'', ''body'', ''response'', ''status'', ''statuscode'', ''$'', ''Value'']
              = Inl (TypeError ''body'')
            \<or> js_path ?rs
                 [''envelope'', ''body'', ''response'', ''status'', ''statuscode'', ''$'', ''Value'']
                 = Inr (JStr ''samlp:Responder'')
               \<and> saml_status (JStr ''samlp:Responder'') \<noteq> Inr (JStr ''Success'')
            \<or> js_path ?rs
                 [''envelope'', ''body'', ''response'',
                  ''assertion'', ''attributestatement'', ''attribute''] = Inl (TypeError ''body'')
            \<or> js_path ?rs
                 [''envelope'', ''body'', ''response'',
                  ''assertion'', ''authenticationstatement'', ''subject'', ''nameidentifier'']
                 = Inl (TypeError ''body''))"
    using p4 by (simp add: saml_status_def js_index_def)
  from validate_outcomes [where v = SAML1_1 and E = ?E
      and body = "xml_saml_status ''samlp:Responder''" and result = ?rs
      and err = "TypeError ''body''" and code = "JStr ''samlp:Responder''",
      THEN conjunct2, THEN conjunct2, THEN conjunct2, THEN conjunct2, THEN conjunct2,
      THEN mp, OF s6]
  have "\<exists>msg. validate SAML1_1 ?E (xml_saml_status ''samlp:Responder'') = Inr (Failure msg)" .
  then have w6: "validate SAML1_1 ?E (xml_saml_status ''samlp:Responder'')
       = Inr (Failure ''CAS authentication failed (Responder).'')"
    by (simp add: validate_saml_def saml_try_def saml_status_def js_index_def p4)
  from w1 w2 w3 w4 w5 w6 show ?thesis by (simp only: simp_thms)
qed

text \<open>
  Claim C2 as stated fails for a structurally unexpected document: an
  authentication-success element with a proxy ticket and no user is parsed into a Success
  whose identity is undefined, not into a Failure.
\<close>

theorem success_without_user_counterexample:
  "parseXML (example_env (Inr [])) (JStr xml_no_user)
     = Inr (JObj [(''serviceresponse'',
              JObj [(''authenticationsuccess'', JObj [(''proxygrantingticket'', JStr ''PGT-1'')])])])
   \<and> validate V3 (example_env (Inr [])) xml_no_user = Inr (Success JUndef JUndef)"
  by (simp add: validate_v2_def v2_try_def example_defs)

end
